theory Spec2Isabelle
  imports Complex_Main "HOL-Library.Char_ord" "HOL-Library.List_Lexorder"
begin

section \<open>Data model\<close>

text \<open>
  The application is one JavaScript module (\<^verbatim>\<open>index.js\<close>) of which the sources hold three
  revisions: the documented one (Google Maps widget, \<^verbatim>\<open>part_000\<close>), an undocumented one
  (Leaflet widget, \<^verbatim>\<open>part_001\<close>) and the first one (\<^verbatim>\<open>src/index.js\<close>, no remote data
  client). The functions below are those of the documented revision; where the Leaflet
  revision differs in a function that is used here, the difference is modelled under its own
  name (suffix \<open>_leaflet\<close>).

  In the order of the list JavaScript numbers are idealised as real numbers: rounding,
  infinities and NaN of IEEE doubles are not modelled there. The distance itself is also
  modelled in double arithmetic, where its result can be NaN (section on the distance in
  double arithmetic). JSON values are typed at the boundary: a restaurant, a user and
  a menu are records with the fields the program reads, an absent (or \<^verbatim>\<open>undefined\<close>) field
  is \<open>None\<close>.
\<close>

record restaurant =
  r_id :: string  \<comment> \<open>\<^verbatim>\<open>_id\<close>\<close>
  name :: "string option"
  address :: string
  city :: string
  company :: string
  coordinates :: "(real \<times> real) option"  \<comment> \<open>\<^verbatim>\<open>location?.coordinates\<close>, the pair \<^verbatim>\<open>[lng, lat]\<close>\<close>

record user =
  username :: "string option"
  email :: "string option"
  favouriteRestaurant :: "string option"
  avatar :: "string option"

record location =
  lat :: real
  lng :: real

section \<open>Geocoding helper\<close>

text \<open>
  \<^verbatim>\<open>Math.atan2(y, x)\<close> on real numbers, with the value \<open>0\<close> that JavaScript gives at
  \<open>(0, 0)\<close>.
\<close>

definition atan2 :: "real \<Rightarrow> real \<Rightarrow> real" where
  "atan2 y x =
     (if 0 < x then arctan (y / x)
      else if x < 0 then (if 0 \<le> y then arctan (y / x) + pi else arctan (y / x) - pi)
      else if 0 < y then pi / 2
      else if y < 0 then - (pi / 2)
      else 0)"

definition toRad :: "real \<Rightarrow> real" where
  "toRad x = x * pi / 180"

text \<open>
  \<^verbatim>\<open>haversine(lat1, lon1, lat2, lon2)\<close> over the real numbers, where \<open>a\<close> lies between
  0 and 1. \<^verbatim>\<open>Math.sqrt\<close> is \<^const>\<open>sqrt\<close>: the two agree on the non-negative numbers.
  What the function computes in doubles, where \<open>a\<close> can round above 1, is
  \<open>haversine_double\<close> below.
\<close>

definition haversine :: "real \<Rightarrow> real \<Rightarrow> real \<Rightarrow> real \<Rightarrow> real" where
  "haversine lat1 lon1 lat2 lon2 =
     (let R = 6371;
          dLat = toRad (lat2 - lat1);
          dLon = toRad (lon2 - lon1);
          a = (sin (dLat / 2))\<^sup>2 +
              cos (toRad lat1) * cos (toRad lat2) * (sin (dLon / 2))\<^sup>2
      in R * 2 * atan2 (sqrt a) (sqrt (1 - a)))"

section \<open>The distance in double arithmetic\<close>

text \<open>
  A JavaScript number is an IEEE double. Here it is NaN or a finite double, given by the
  real number it denotes. The infinities and the sign of zero are not modelled: coordinates
  in degrees lead to neither an overflow nor a division by zero, and no operation of
  \<^verbatim>\<open>haversine\<close> tells the two zeros apart.
\<close>

datatype number = NaN | Num real

text \<open>
  Rounding to the nearest double, ties to even: a real number \<open>x\<close> whose magnitude is at
  least \<open>pow2 e\<close> and below \<open>pow2 (e + 1)\<close> is rounded to a multiple of
  \<open>pow2 (e - 52)\<close>, and a number of magnitude below \<open>pow2 (- 1022)\<close> (the subnormal
  numbers) to a multiple of \<open>pow2 (- 1074)\<close>. The exponent is found by halving or
  doubling; 2100 steps are enough for every magnitude that a double has (lemma
  \<open>exponent_of_binade\<close>).
\<close>

definition round_half_even :: "real \<Rightarrow> int" where
  "round_half_even q =
     (let n = \<lfloor>q\<rfloor>; r = q - of_int n
      in if r < 1 / 2 then n else if 1 / 2 < r then n + 1 else if even n then n else n + 1)"

fun exponent_of :: "nat \<Rightarrow> real \<Rightarrow> int \<Rightarrow> int" where
  "exponent_of 0 x e = e"
| "exponent_of (Suc k) x e =
     (if 2 \<le> x then exponent_of k (x / 2) (e + 1)
      else if x < 1 \<and> - 1022 < e then exponent_of k (x * 2) (e - 1)
      else e)"

definition pow2 :: "int \<Rightarrow> real" where
  "pow2 e = (if 0 \<le> e then 2 ^ nat e else 1 / 2 ^ nat (- e))"

definition fl :: "real \<Rightarrow> real" where
  "fl x = (let u = pow2 (exponent_of 2100 \<bar>x\<bar> 0 - 52)
           in of_int (round_half_even (x / u)) * u)"

text \<open>
  The arithmetic operators give the exact result rounded, and NaN when an operand is NaN.
  The only divisors of \<^verbatim>\<open>haversine\<close> are the literals 180 and 2; a division by zero,
  whose result is an infinity or NaN, is NaN here. \<^verbatim>\<open>==\<close> on numbers is false when an
  operand is NaN.
\<close>

fun js_add :: "number \<Rightarrow> number \<Rightarrow> number" where
  "js_add (Num x) (Num y) = Num (fl (x + y))"
| "js_add x y = NaN"

fun js_sub :: "number \<Rightarrow> number \<Rightarrow> number" where
  "js_sub (Num x) (Num y) = Num (fl (x - y))"
| "js_sub x y = NaN"

fun js_mul :: "number \<Rightarrow> number \<Rightarrow> number" where
  "js_mul (Num x) (Num y) = Num (fl (x * y))"
| "js_mul x y = NaN"

fun js_div :: "number \<Rightarrow> number \<Rightarrow> number" where
  "js_div (Num x) (Num y) = (if y = 0 then NaN else Num (fl (x / y)))"
| "js_div x y = NaN"

fun js_equals :: "number \<Rightarrow> number \<Rightarrow> bool" where
  "js_equals (Num x) (Num y) = (x = y)"
| "js_equals x y = False"

text \<open>
  The functions of \<^verbatim>\<open>Math\<close> and the operator \<^verbatim>\<open>**\<close> on finite numbers are the engine's:
  ECMAScript leaves their values to the implementation, and fixes that they are NaN for a
  NaN argument (apart from an exponent of zero, where the power is 1), and that the square
  root of a negative number is NaN.
\<close>

record engine =
  Math_sin :: "real \<Rightarrow> real"
  Math_cos :: "real \<Rightarrow> real"
  Math_sqrt :: "real \<Rightarrow> real"
  Math_atan2 :: "real \<Rightarrow> real \<Rightarrow> real"
  exponentiate :: "real \<Rightarrow> real \<Rightarrow> real"

fun js_sin :: "engine \<Rightarrow> number \<Rightarrow> number" where
  "js_sin en (Num x) = Num (Math_sin en x)"
| "js_sin en NaN = NaN"

fun js_cos :: "engine \<Rightarrow> number \<Rightarrow> number" where
  "js_cos en (Num x) = Num (Math_cos en x)"
| "js_cos en NaN = NaN"

fun js_sqrt :: "engine \<Rightarrow> number \<Rightarrow> number" where
  "js_sqrt en (Num x) = (if x < 0 then NaN else Num (Math_sqrt en x))"
| "js_sqrt en NaN = NaN"

fun js_atan2 :: "engine \<Rightarrow> number \<Rightarrow> number \<Rightarrow> number" where
  "js_atan2 en (Num y) (Num x) = Num (Math_atan2 en y x)"
| "js_atan2 en y x = NaN"

fun js_pow :: "engine \<Rightarrow> number \<Rightarrow> number \<Rightarrow> number" where
  "js_pow en b NaN = NaN"
| "js_pow en NaN (Num y) = (if y = 0 then Num 1 else NaN)"
| "js_pow en (Num x) (Num y) = (if y = 0 then Num 1 else Num (exponentiate en x y))"

text \<open>\<^verbatim>\<open>Math.PI\<close>, the double nearest to \<open>\<pi>\<close>.\<close>

definition Math_PI :: real where
  "Math_PI = 884279719003555 / 2 ^ 48"

definition toRad_double :: "number \<Rightarrow> number" where
  \<comment> \<open>\<^verbatim>\<open>x => x * Math.PI / 180\<close>\<close>
  "toRad_double x = js_div (js_mul x (Num Math_PI)) (Num 180)"

text \<open>
  \<^verbatim>\<open>haversine(lat1, lon1, lat2, lon2)\<close> as the engine computes it. Nothing keeps \<open>a\<close>
  at or below 1 before \<^verbatim>\<open>Math.sqrt(1 - a)\<close>.
\<close>

definition haversine_double ::
  "engine \<Rightarrow> number \<Rightarrow> number \<Rightarrow> number \<Rightarrow> number \<Rightarrow> number" where
  "haversine_double en lat1 lon1 lat2 lon2 =
     (let R = Num 6371;
          dLat = toRad_double (js_sub lat2 lat1);
          dLon = toRad_double (js_sub lon2 lon1);
          a = js_add (js_pow en (js_sin en (js_div dLat (Num 2))) (Num 2))
                (js_mul (js_mul (js_cos en (toRad_double lat1)) (js_cos en (toRad_double lat2)))
                   (js_pow en (js_sin en (js_div dLon (Num 2))) (Num 2)))
      in js_mul (js_mul R (Num 2))
           (js_atan2 en (js_sqrt en a) (js_sqrt en (js_sub (Num 1) a))))"

section \<open>Array.prototype.sort\<close>

text \<open>
  \<^verbatim>\<open>xs.sort(cmp)\<close> with a comparator: ECMAScript requires the sort to be stable; the
  order it produces for a comparator that is not consistent is left to the engine. The
  model is the stable insertion sort: an element moves behind exactly those elements that
  the comparator puts strictly before it.
\<close>

fun insert_cmp :: "('a \<Rightarrow> 'a \<Rightarrow> real) \<Rightarrow> 'a \<Rightarrow> 'a list \<Rightarrow> 'a list" where
  "insert_cmp cmp x [] = [x]"
| "insert_cmp cmp x (y # ys) =
     (if 0 < cmp x y then y # insert_cmp cmp x ys else x # y # ys)"

fun sort_cmp :: "('a \<Rightarrow> 'a \<Rightarrow> real) \<Rightarrow> 'a list \<Rightarrow> 'a list" where
  "sort_cmp cmp [] = []"
| "sort_cmp cmp (x # xs) = insert_cmp cmp x (sort_cmp cmp xs)"

section \<open>Rendering pipeline: the restaurant list\<close>

text \<open>
  \<^verbatim>\<open>currentUser?.favouriteRestaurant\<close> as a condition: the favourite's id when there is
  a current user and the id is truthy (set and not the empty string).
\<close>

definition favourite_of :: "user option \<Rightarrow> string option" where
  "favourite_of cu =
     (case cu of
        None \<Rightarrow> None
      | Some u \<Rightarrow>
          (case favouriteRestaurant u of
             None \<Rightarrow> None
           | Some f \<Rightarrow> if f = [] then None else Some f))"

text \<open>The two comparators of \<^verbatim>\<open>renderRestaurants\<close>.\<close>

definition favourite_cmp :: "string \<Rightarrow> restaurant \<Rightarrow> restaurant \<Rightarrow> real" where
  "favourite_cmp fav a b = (if r_id a = fav then - 1 else if r_id b = fav then 1 else 0)"

definition distance_cmp :: "location \<Rightarrow> restaurant \<Rightarrow> restaurant \<Rightarrow> real" where
  "distance_cmp loc a b =
     (case coordinates a of
        None \<Rightarrow> 0
      | Some (lngA, latA) \<Rightarrow>
          (case coordinates b of
             None \<Rightarrow> 0
           | Some (lngB, latB) \<Rightarrow>
               haversine (lat loc) (lng loc) latA lngA - haversine (lat loc) (lng loc) latB lngB))"

text \<open>
  The local array \<^verbatim>\<open>sorted\<close> of \<^verbatim>\<open>renderRestaurants\<close>: favourite first when the user
  has one, else by distance when the location is known, else the list as given.
\<close>

definition sorted_restaurants ::
  "user option \<Rightarrow> location option \<Rightarrow> restaurant list \<Rightarrow> restaurant list" where
  "sorted_restaurants cu loc list =
     (case favourite_of cu of
        Some fav \<Rightarrow> sort_cmp (favourite_cmp fav) list
      | None \<Rightarrow>
          (case loc of
             Some l \<Rightarrow> sort_cmp (distance_cmp l) list
           | None \<Rightarrow> list))"

text \<open>
  The Leaflet revision has the favourite branch only: without a favourite the list is
  rendered as given.
\<close>

definition sorted_restaurants_leaflet :: "user option \<Rightarrow> restaurant list \<Rightarrow> restaurant list" where
  "sorted_restaurants_leaflet cu list =
     (case favourite_of cu of
        Some fav \<Rightarrow> sort_cmp (favourite_cmp fav) list
      | None \<Rightarrow> list)"

section \<open>Application state\<close>

datatype lang = Fi | En

text \<open>
  The list view holds fixed markup (the loading indicator, the error placeholder of
  \<^verbatim>\<open>fetchRestaurants\<close>, the no-results paragraph) or the cards appended to it. A card
  keeps what \<^verbatim>\<open>renderRestaurants\<close> computes for it: its restaurant, the
  \<^verbatim>\<open>favorite-highlight\<close> and \<^verbatim>\<open>nearest\<close> classes, the distance shown (before
  \<^verbatim>\<open>toFixed(2)\<close>) and the favourite button (\<open>Some True\<close>: labelled as the favourite,
  \<open>Some False\<close>: "add as favourite", \<open>None\<close>: no button).
\<close>

record card =
  card_of :: restaurant
  favorite_highlight :: bool
  distance_km :: "real option"
  favBtn :: "bool option"
  nearest :: bool

datatype node = Loading_indicator | Load_failed | No_results | Card card

record button =
  hidden :: bool
  textContent :: "string option"

datatype pic = Pic_url string | Avatar_requested string

record course =
  course_name :: "string option"
  diets :: "string option"
  price :: "string option"

record day =
  date :: "string option"
  courses :: "course list option"  \<comment> \<open>\<^verbatim>\<open>Object.values(d.courses)\<close>, \<open>None\<close> when \<^verbatim>\<open>d.courses\<close> is falsy\<close>

record week =
  days :: "day list"

text \<open>
  A heading of the weekly menu is a weekday name, or the text the engine's
  \<^verbatim>\<open>Date\<close> and \<^verbatim>\<open>toLocaleDateString\<close> make of a date string in a locale (the
  string itself when it is no date).
\<close>

datatype heading = Plain string | Localised lang string

datatype menu_node = H4 heading | HR | UL "course list" | No_menu

datatype menu_kind = Daily | Weekly

text \<open>The overlay's title: the restaurant's name, alone or followed by the menu's kind.\<close>

datatype menu_title = Untitled | Title "string option" "menu_kind option"

record menu_overlay =
  menuTitle :: menu_title
  menuContent :: "menu_node list"
  shown :: bool

text \<open>
  The module's variables, the browser's local storage, what was logged with
  \<^verbatim>\<open>console.error\<close> and shown with \<^verbatim>\<open>alert\<close>, and the elements of \<^verbatim>\<open>el\<close> that
  the modelled functions write (\<open>None\<close>: the page has no such element).
\<close>

record app =
  restaurants :: "restaurant list"
  currentUser :: "user option"
  token :: "string option"
  selectedLang :: lang
  localStorage :: "string \<Rightarrow> string option"
  console :: "(string \<times> string) list"
  alerts :: "string list"
  restaurantList :: "node list option"
  loginBtn :: "button option"
  registerBtn :: "button option"
  profileBtn :: "button option"
  logoutBtn :: "button option"
  username_input :: "string option"
  email_input :: "string option"
  favoriteRestaurant :: "((string \<times> string) list \<times> string) option"
  profilePic :: "pic option"
  cityFilter :: "(string \<times> string) list option"
  providerFilter :: "(string \<times> string) list option"
  langSelect :: "lang option"
  menuDisplay :: "menu_overlay option"
  body_overflow_hidden :: bool

text \<open>Truthiness of a string that may be \<^verbatim>\<open>null\<close>.\<close>

definition truthy :: "string option \<Rightarrow> bool" where
  "truthy v = (case v of None \<Rightarrow> False | Some s \<Rightarrow> s \<noteq> [])"

definition or_empty :: "string option \<Rightarrow> string" where
  \<comment> \<open>\<^verbatim>\<open>v || ""\<close>\<close>
  "or_empty v = (case v of None \<Rightarrow> [] | Some s \<Rightarrow> s)"

subsection \<open>renderRestaurants\<close>

definition is_favourite :: "user option \<Rightarrow> restaurant \<Rightarrow> bool" where
  \<comment> \<open>\<^verbatim>\<open>currentUser?.favouriteRestaurant === r._id\<close>\<close>
  "is_favourite cu r =
     (case cu of None \<Rightarrow> False | Some u \<Rightarrow> favouriteRestaurant u = Some (r_id r))"

definition distance_to :: "location \<Rightarrow> restaurant \<Rightarrow> real option" where
  "distance_to loc r =
     (case coordinates r of
        None \<Rightarrow> None
      | Some (lng', lat') \<Rightarrow> Some (haversine (lat loc) (lng loc) lat' lng'))"

definition make_card :: "user option \<Rightarrow> location option \<Rightarrow> restaurant \<Rightarrow> card" where
  "make_card cu loc r =
     \<lparr>card_of = r,
      favorite_highlight = is_favourite cu r,
      distance_km = (case loc of None \<Rightarrow> None | Some l \<Rightarrow> distance_to l r),
      favBtn = (case cu of None \<Rightarrow> None | Some u \<Rightarrow> Some (is_favourite cu r)),
      nearest = False\<rparr>"

text \<open>
  The search for the nearest restaurant when a favourite exists: \<^verbatim>\<open>minDist\<close> starts at
  \<^verbatim>\<open>Infinity\<close> (\<open>None\<close>), the favourite and the restaurants without coordinates are
  skipped, a restaurant replaces the nearest so far when it is strictly nearer.
\<close>

fun nearest_loop ::
  "location \<Rightarrow> string \<Rightarrow> restaurant list \<Rightarrow> restaurant option \<times> real option
   \<Rightarrow> restaurant option \<times> real option" where
  "nearest_loop loc fav [] acc = acc"
| "nearest_loop loc fav (r # rs) (best, minDist) =
     nearest_loop loc fav rs
       (case distance_to loc r of
          None \<Rightarrow> (best, minDist)
        | Some d \<Rightarrow>
            if r_id r \<noteq> fav \<and> (case minDist of None \<Rightarrow> True | Some m \<Rightarrow> d < m)
            then (Some r, Some d) else (best, minDist))"

definition mark_first :: "card list \<Rightarrow> card list" where
  "mark_first cs = (case cs of [] \<Rightarrow> [] | c # cs' \<Rightarrow> c\<lparr>nearest := True\<rparr> # cs')"

definition h3_text :: "restaurant \<Rightarrow> string" where
  \<comment> \<open>the text of \<^verbatim>\<open><h3>${r.name}</h3>\<close> (names are plain text)\<close>
  "h3_text r = (case name r of None \<Rightarrow> ''undefined'' | Some n \<Rightarrow> n)"

definition mark_named :: "string option \<Rightarrow> card list \<Rightarrow> card list" where
  \<comment> \<open>the cards whose \<^verbatim>\<open>h3\<close> text is the name\<close>
  "mark_named n cs =
     map (\<lambda>c. if Some (h3_text (card_of c)) = n then c\<lparr>nearest := True\<rparr> else c) cs"

definition highlight_nearest ::
  "user option \<Rightarrow> location option \<Rightarrow> restaurant list \<Rightarrow> card list \<Rightarrow> card list" where
  "highlight_nearest cu loc sorted_list cs =
     (case loc of
        None \<Rightarrow> cs
      | Some l \<Rightarrow>
          (case favourite_of cu of
             None \<Rightarrow>
               (case sorted_list of
                  [] \<Rightarrow> cs
                | r # _ \<Rightarrow> if coordinates r \<noteq> None then mark_first cs else cs)
           | Some fav \<Rightarrow>
               (case fst (nearest_loop l fav sorted_list (None, None)) of
                  None \<Rightarrow> cs
                | Some r \<Rightarrow> mark_named (name r) cs)))"

text \<open>
  \<^verbatim>\<open>renderRestaurants(list)\<close>; \<open>loc\<close> is what \<^verbatim>\<open>await getUserLocation()\<close> gave. Without
  the list element nothing is rendered.
\<close>

definition renderRestaurants :: "location option \<Rightarrow> restaurant list \<Rightarrow> app \<Rightarrow> app" where
  "renderRestaurants loc list st =
     (case restaurantList st of
        None \<Rightarrow> st
      | Some _ \<Rightarrow>
          (let sorted_list = sorted_restaurants (currentUser st) loc list;
               cards = map (make_card (currentUser st) loc) sorted_list
           in st\<lparr>restaurantList :=
                   Some ((if sorted_list \<noteq> [] then [] else [No_results]) @
                         map Card (highlight_nearest (currentUser st) loc sorted_list cards))\<rparr>))"

text \<open>The restaurants of the cards in the list view, in the order of the cards.\<close>

definition rendered_order :: "app \<Rightarrow> restaurant list" where
  "rendered_order st =
     (case restaurantList st of
        None \<Rightarrow> []
      | Some ns \<Rightarrow> concat (map (\<lambda>n. case n of Card c \<Rightarrow> [card_of c] | _ \<Rightarrow> []) ns))"

section \<open>Strings\<close>

text \<open>
  A string is a list of code units below 256. \<^verbatim>\<open>s.includes(sub)\<close>,
  \<^verbatim>\<open>s.toLowerCase()\<close>, \<^verbatim>\<open>s.trim()\<close> and the decimal text of a number in a template
  string.
\<close>

fun str_includes :: "string \<Rightarrow> string \<Rightarrow> bool" where
  "str_includes [] sub = (sub = [])"
| "str_includes (c # cs) sub = (take (length sub) (c # cs) = sub \<or> str_includes cs sub)"

definition lower_char :: "char \<Rightarrow> char" where
  "lower_char c =
     (let n = (of_char c :: nat)
      in if (65 \<le> n \<and> n \<le> 90) \<or> (192 \<le> n \<and> n \<le> 222 \<and> n \<noteq> 215)
         then char_of (n + 32) else c)"

definition toLowerCase :: "string \<Rightarrow> string" where
  "toLowerCase s = map lower_char s"

definition is_space :: "char \<Rightarrow> bool" where
  "is_space c = ((of_char c :: nat) \<in> {9, 10, 11, 12, 13, 32, 160})"

definition trim :: "string \<Rightarrow> string" where
  "trim s = rev (dropWhile is_space (rev (dropWhile is_space s)))"

function show_nat :: "nat \<Rightarrow> string" where
  "show_nat n =
     (if n < 10 then [''0123456789'' ! n]
      else show_nat (n div 10) @ [''0123456789'' ! (n mod 10)])"
  by pat_completeness auto
termination
  by (relation "measure id") auto

declare show_nat.simps [simp del]

section \<open>Remote data client\<close>

definition API_BASE :: string where
  "API_BASE = ''https://media2.edu.metropolia.fi/restaurant/api/v1''"

datatype req_body = Text string | FormData

record options =
  opt_method :: "string option"
  opt_headers :: "string \<Rightarrow> string option"
  opt_body :: "req_body option"

text \<open>The options of a call \<^verbatim>\<open>apiFetch(url)\<close>: the default \<^verbatim>\<open>{}\<close>.\<close>

definition no_options :: options where
  "no_options = \<lparr>opt_method = None, opt_headers = Map.empty, opt_body = None\<rparr>"

text \<open>
  A parsed JSON value, as far as the program can tell values apart: a number keeps its
  value and the text that the engine's conversion of numbers to strings gives for it, an
  object is the list of its members in the order of the text. Of members with the same key
  the last one is the property.
\<close>

datatype js_value =
    JNull
  | JBool bool
  | JNum real string
  | JStr string
  | JArr "js_value list"
  | JObj "(string \<times> js_value) list"

text \<open>Truthiness of a value (\<^verbatim>\<open>v || ...\<close>).\<close>

fun truthy_value :: "js_value \<Rightarrow> bool" where
  "truthy_value JNull = False"
| "truthy_value (JBool b) = b"
| "truthy_value (JNum x t) = (x \<noteq> 0)"
| "truthy_value (JStr s) = (s \<noteq> [])"
| "truthy_value (JArr vs) = True"
| "truthy_value (JObj kvs) = True"

text \<open>
  The conversion of a value to a string (\<^verbatim>\<open>new Error(v)\<close> converts its argument): an
  array is the texts of its elements joined by commas, with the empty text for
  \<^verbatim>\<open>null\<close>; an object is \<^verbatim>\<open>[object Object]\<close>, unless it has an own property
  \<^verbatim>\<open>toString\<close>, which in parsed JSON is never a function, and then the conversion throws
  a TypeError (\<open>None\<close>).
\<close>

fun join_texts :: "string option list \<Rightarrow> string option" where
  "join_texts [] = Some []"
| "join_texts [t] = t"
| "join_texts (t # ts) =
     (case t of
        None \<Rightarrow> None
      | Some a \<Rightarrow> (case join_texts ts of None \<Rightarrow> None | Some b \<Rightarrow> Some (a @ '','' @ b)))"

fun to_String :: "js_value \<Rightarrow> string option" where
  "to_String JNull = Some ''null''"
| "to_String (JBool b) = Some (if b then ''true'' else ''false'')"
| "to_String (JNum x t) = Some t"
| "to_String (JStr s) = Some s"
| "to_String (JArr vs) =
     join_texts (map (\<lambda>v. if v = JNull then Some [] else to_String v) vs)"
| "to_String (JObj kvs) =
     (if map_of (rev kvs) ''toString'' \<noteq> None then None else Some ''[object Object]'')"

text \<open>
  \<^verbatim>\<open>data.message\<close> for a value that is not \<^verbatim>\<open>null\<close>: the own property of an object,
  \<^verbatim>\<open>undefined\<close> (\<open>None\<close>) for an object without it and for every other value.
\<close>

fun message_field :: "js_value \<Rightarrow> js_value option" where
  "message_field (JObj kvs) = map_of (rev kvs) ''message''"
| "message_field v = None"

text \<open>
  What the transport gives. \<^verbatim>\<open>fetch\<close> rejects with an error, of which the program reads
  the message, or resolves to a response. Of a response the program reads \<^verbatim>\<open>ok\<close>,
  \<^verbatim>\<open>status\<close> and \<^verbatim>\<open>json()\<close>, which rejects (\<open>Inl\<close>, with the message of the
  error) or gives the parsed body. A response with \<^verbatim>\<open>ok\<close> true (\<open>Ok_response\<close>) has a
  status and carries the payload of its endpoint. A response with \<^verbatim>\<open>ok\<close> false
  (\<open>Error_response\<close>) has a status and a body that is any JSON value.
\<close>

datatype 'a response =
    Ok_response nat "string + 'a"
  | Error_response nat "string + js_value"

datatype 'a fetch_result = Rejected string | Resolved "'a response"

datatype js_error = JsError string

fun message :: "js_error \<Rightarrow> string" where
  "message (JsError m) = m"

text \<open>
  The messages of the TypeErrors that reading \<^verbatim>\<open>data.message\<close> throws when the body is
  null, and that the conversion of an object to a string throws.
\<close>

definition null_body_message :: string where
  "null_body_message =
     ''Cannot read properties of null (reading '' @ [CHR 0x27] @ ''message'' @ [CHR 0x27] @ '')''"

definition cannot_convert_message :: string where
  "cannot_convert_message = ''Cannot convert object to primitive value''"

text \<open>
  The message of what \<^verbatim>\<open>apiFetch\<close> throws for a response with \<^verbatim>\<open>ok\<close> false:
  \<^verbatim>\<open>new Error(data.message || `HTTP ${res.status}`)\<close>, or the TypeError of reading the
  property or of converting it.
\<close>

definition thrown_message :: "nat \<Rightarrow> js_value \<Rightarrow> string" where
  "thrown_message s body =
     (if body = JNull then null_body_message
      else (case message_field body of
              None \<Rightarrow> ''HTTP '' @ show_nat s
            | Some v \<Rightarrow>
                if truthy_value v
                then (case to_String v of None \<Rightarrow> cannot_convert_message | Some t \<Rightarrow> t)
                else ''HTTP '' @ show_nat s))"

text \<open>
  The fixed notification, Finnish for "no connection to the server"; the code unit 0xE4 is
  the letter a with diaeresis.
\<close>

definition cannot_reach_server :: string where
  "cannot_reach_server = ''Ei yhteytt'' @ [CHR 0xE4] @ '' palvelimeen''"

text \<open>
  The \<^verbatim>\<open>catch\<close> block of \<^verbatim>\<open>apiFetch\<close>: the error is logged, the user is notified, the
  error is thrown again.
\<close>

definition api_catch :: "js_error \<Rightarrow> app \<Rightarrow> (js_error + 'a) \<times> app" where
  "api_catch err st =
     (Inl err,
      st\<lparr>console := console st @ [(''API Error:'', message err)],
         alerts := alerts st @
           [if str_includes (message err) ''Failed to fetch'' then cannot_reach_server
            else message err]\<rparr>)"

definition request_headers :: "options \<Rightarrow> app \<Rightarrow> string \<Rightarrow> string option" where
  "request_headers opts st =
     (let authToken = (if truthy (token st) then token st else localStorage st ''token'');
          headers = opt_headers opts;
          headers = (if opt_body opts = Some FormData then headers
                     else headers(''Content-Type'' \<mapsto> ''application/json''))
      in case authToken of
           None \<Rightarrow> headers
         | Some tk \<Rightarrow> if tk \<noteq> [] then headers(''Authorization'' \<mapsto> ''Bearer '' @ tk) else headers)"

definition apiFetch ::
  "(string \<Rightarrow> options \<Rightarrow> 'a fetch_result) \<Rightarrow> string \<Rightarrow> options \<Rightarrow> app \<Rightarrow> (js_error + 'a) \<times> app" where
  "apiFetch fetch url opts st =
     (case fetch url (opts\<lparr>opt_headers := request_headers opts st\<rparr>) of
        Rejected m \<Rightarrow> api_catch (JsError m) st
      | Resolved (Ok_response s (Inl m)) \<Rightarrow> api_catch (JsError m) st
      | Resolved (Ok_response s (Inr data)) \<Rightarrow> (Inr data, st)
      | Resolved (Error_response s (Inl m)) \<Rightarrow> api_catch (JsError m) st
      | Resolved (Error_response s (Inr body)) \<Rightarrow> api_catch (JsError (thrown_message s body)) st)"

section \<open>Session store\<close>

definition loggedIn :: "app \<Rightarrow> bool" where
  \<comment> \<open>\<^verbatim>\<open>!!currentUser && !!token\<close>\<close>
  "loggedIn st = (currentUser st \<noteq> None \<and> truthy (token st))"

definition set_hidden :: "bool \<Rightarrow> button option \<Rightarrow> button option" where
  \<comment> \<open>\<^verbatim>\<open>b?.classList.toggle("hidden", force)\<close>\<close>
  "set_hidden force b = map_option (\<lambda>b. b\<lparr>hidden := force\<rparr>) b"

definition updateAuthUI :: "app \<Rightarrow> app" where
  "updateAuthUI st =
     (let st1 = st\<lparr>loginBtn := set_hidden (loggedIn st) (loginBtn st),
                   registerBtn := set_hidden (loggedIn st) (registerBtn st),
                   profileBtn := set_hidden (\<not> loggedIn st) (profileBtn st),
                   logoutBtn := set_hidden (\<not> loggedIn st) (logoutBtn st)\<rparr>
      in case currentUser st of
           None \<Rightarrow> st1
         | Some u \<Rightarrow>
             if loggedIn st
             then st1\<lparr>profileBtn := map_option (\<lambda>b. b\<lparr>textContent := username u\<rparr>) (profileBtn st1)\<rparr>
             else st1)"

text \<open>
  \<^verbatim>\<open>loadProfileData\<close> fills the profile form. With an avatar the picture is requested
  from the server and set when the request comes back, which is outside the model.
\<close>

definition loadProfileData :: "app \<Rightarrow> app" where
  "loadProfileData st =
     (case currentUser st of
        None \<Rightarrow> st
      | Some u \<Rightarrow>
          st\<lparr>username_input := map_option (\<lambda>_. or_empty (username u)) (username_input st),
             email_input := map_option (\<lambda>_. or_empty (email u)) (email_input st),
             favoriteRestaurant :=
               map_option (\<lambda>(opts, v). (opts, or_empty (favouriteRestaurant u))) (favoriteRestaurant st),
             profilePic :=
               map_option
                 (\<lambda>_. if truthy (avatar u)
                      then Avatar_requested (API_BASE @ ''/uploads/'' @ or_empty (avatar u))
                      else Pic_url ''https://via.placeholder.com/120x120/007bff/ffffff?text=No+Avatar'')
                 (profilePic st)\<rparr>)"

text \<open>
  \<^verbatim>\<open>loadAuth\<close>; \<^verbatim>\<open>JSON.parse\<close> is the engine's: it throws a SyntaxError (\<open>Inl\<close>, with
  its message) or gives the stored user (\<^verbatim>\<open>null\<close> when the text is \<^verbatim>\<open>null\<close>).
\<close>

definition loadAuth :: "(string \<Rightarrow> string + user option) \<Rightarrow> app \<Rightarrow> app" where
  "loadAuth JSON_parse st =
     (let st1 = st\<lparr>token := localStorage st ''token''\<rparr>;
          stored = localStorage st ''currentUser''
      in if truthy (token st1) \<and> truthy stored
         then (case JSON_parse (or_empty stored) of
                 Inr u \<Rightarrow> loadProfileData (updateAuthUI (st1\<lparr>currentUser := u\<rparr>))
               | Inl e \<Rightarrow> st1\<lparr>console := console st1 @ [(''Invalid stored user data'', e)]\<rparr>)
         else st1)"

section \<open>Restaurant directory\<close>

subsection \<open>populateFilters\<close>

text \<open>
  A select is the list of its options, each a text and a value (the favourite select of the
  profile form also keeps the value set by \<^verbatim>\<open>loadProfileData\<close>). The first option of a
  filter is kept and renamed, the others are replaced by the sorted cities and companies
  without duplicates; the default sort of JavaScript compares the strings by code units.
  Renaming the first option of a select without options throws a TypeError, after which
  what was written so far stays.
\<close>

definition no_first_option_message :: string where
  "no_first_option_message =
     ''Cannot set properties of undefined (setting '' @ [CHR 0x27] @ ''text'' @ [CHR 0x27] @ '')''"

definition option_of_restaurant :: "restaurant \<Rightarrow> string \<times> string" where
  \<comment> \<open>\<^verbatim>\<open>new Option(r.name, r._id)\<close>\<close>
  "option_of_restaurant r = (or_empty (name r), r_id r)"

definition populateFilters :: "app \<Rightarrow> js_error option \<times> app" where
  "populateFilters st =
     (case (cityFilter st, providerFilter st, favoriteRestaurant st) of
        (Some cs, Some ps, Some (fs, v)) \<Rightarrow>
          (let cities = sort (remdups (map city (restaurants st)));
               companies = sort (remdups (map company (restaurants st)))
           in case cs of
                [] \<Rightarrow> (Some (JsError no_first_option_message), st)
              | c # _ \<Rightarrow>
                  (let cs1 = [(if selectedLang st = En then ''All cities'' else ''Kaikki kaupungit'',
                               snd c)];
                       st1 = st\<lparr>cityFilter := Some cs1\<rparr>
                   in case ps of
                        [] \<Rightarrow> (Some (JsError no_first_option_message), st1)
                      | p # _ \<Rightarrow>
                          (let ps1 = [(if selectedLang st = En then ''All providers''
                                       else ''Kaikki palveluntarjoajat'', snd p)];
                               fs1 = (if fs = [] then [([], [])] else take 1 fs)
                           in (None,
                               st1\<lparr>cityFilter := Some (cs1 @ map (\<lambda>c. (c, c)) cities),
                                   providerFilter := Some (ps1 @ map (\<lambda>c. (c, c)) companies),
                                   favoriteRestaurant :=
                                     Some (fs1 @ map option_of_restaurant (restaurants st), v)\<rparr>))))
      | _ \<Rightarrow> (None, st))"

subsection \<open>fetchRestaurants\<close>

definition set_list_view :: "node list \<Rightarrow> app \<Rightarrow> app" where
  \<comment> \<open>\<^verbatim>\<open>if (el.restaurantList) el.restaurantList.innerHTML = ...\<close>\<close>
  "set_list_view ns st = st\<lparr>restaurantList := map_option (\<lambda>_. ns) (restaurantList st)\<rparr>"

text \<open>
  \<^verbatim>\<open>fetchRestaurants\<close>. The map widget is outside the model: \<^verbatim>\<open>renderMap\<close> writes
  nothing that is modelled here, and whether it fails is an input. The two renderers, which
  the program starts together, run one after the other.
\<close>

definition fetchRestaurants ::
  "(string \<Rightarrow> options \<Rightarrow> restaurant list fetch_result) \<Rightarrow> location option \<Rightarrow> bool \<Rightarrow> app \<Rightarrow> app" where
  "fetchRestaurants fetch loc renderMap_fails st =
     (case apiFetch fetch (API_BASE @ ''/restaurants'') no_options
             (set_list_view [Loading_indicator] st) of
        (Inl err, st1) \<Rightarrow> set_list_view [Load_failed] st1
      | (Inr data, st1) \<Rightarrow>
          (case populateFilters (st1\<lparr>restaurants := data\<rparr>) of
             (Some err, st2) \<Rightarrow> set_list_view [Load_failed] st2
           | (None, st2) \<Rightarrow>
               (let st3 = renderRestaurants loc (restaurants st2) st2
                in if renderMap_fails then set_list_view [Load_failed] st3 else st3)))"

subsection \<open>filterAndRender\<close>

text \<open>
  The three filter steps of \<^verbatim>\<open>filterAndRender\<close>. The value of a control is \<open>None\<close>
  when the page has no such control.
\<close>

definition filter_city :: "string option \<Rightarrow> restaurant list \<Rightarrow> restaurant list" where
  "filter_city v rs = (if truthy v then filter (\<lambda>r. city r = or_empty v) rs else rs)"

definition filter_provider :: "string option \<Rightarrow> restaurant list \<Rightarrow> restaurant list" where
  "filter_provider v rs = (if truthy v then filter (\<lambda>r. company r = or_empty v) rs else rs)"

definition filter_search :: "string option \<Rightarrow> restaurant list \<Rightarrow> restaurant list" where
  "filter_search v rs =
     (if trim (or_empty v) \<noteq> []
      then (let term = toLowerCase (trim (or_empty v))
            in filter (\<lambda>r. case name r of
                              None \<Rightarrow> False
                            | Some n \<Rightarrow> str_includes (toLowerCase n) term) rs)
      else rs)"

definition filterAndRender ::
  "string option \<Rightarrow> string option \<Rightarrow> string option \<Rightarrow> location option \<Rightarrow> app \<Rightarrow> app" where
  "filterAndRender cityValue providerValue searchValue loc st =
     renderRestaurants loc
       (filter_search searchValue
          (filter_provider providerValue (filter_city cityValue (restaurants st)))) st"

section \<open>Menu viewer\<close>

definition weekdays :: "lang \<Rightarrow> string list" where
  "weekdays l =
     (if l = En
      then [''Monday'', ''Tuesday'', ''Wednesday'', ''Thursday'', ''Friday'', ''Saturday'', ''Sunday'']
      else [''Maanantai'', ''Tiistai'', ''Keskiviikko'', ''Torstai'', ''Perjantai'', ''Lauantai'',
            ''Sunnuntai''])"

definition slice :: "'a list \<Rightarrow> nat \<Rightarrow> nat \<Rightarrow> 'a list" where
  \<comment> \<open>\<^verbatim>\<open>xs.slice(start, stop)\<close> for indices that are not negative\<close>
  "slice xs start stop = take (stop - start) (drop start xs)"

definition course_list :: "course list \<Rightarrow> menu_node" where
  \<comment> \<open>the list of the courses, or the no-meals paragraph when there is none\<close>
  "course_list cs = (if cs \<noteq> [] then UL cs else No_menu)"

text \<open>
  The loop of the single-day shape: five weekday sections, the \<open>i\<close>-th with the courses
  from \<open>i * chunk\<close> up to \<open>(i + 1) * chunk\<close>.
\<close>

function chunk_loop :: "lang \<Rightarrow> course list \<Rightarrow> nat \<Rightarrow> nat \<Rightarrow> menu_node list \<Rightarrow> menu_node list" where
  "chunk_loop l all chunk i html =
     (if i < 5
      then chunk_loop l all chunk (i + 1)
             (html @ [H4 (Plain (weekdays l ! i)),
                      course_list (slice all (i * chunk) ((i + 1) * chunk))])
      else html)"
  by pat_completeness auto
termination
  by (relation "measure (\<lambda>(l, all, chunk, i, html). 5 - i)") auto

declare chunk_loop.simps [simp del]

definition day_heading :: "lang \<Rightarrow> nat \<Rightarrow> day \<Rightarrow> heading" where
  "day_heading l i d =
     (if truthy (date d) then Localised l (or_empty (date d)) else Plain (weekdays l ! (i mod 7)))"

fun days_loop :: "lang \<Rightarrow> nat \<Rightarrow> day list \<Rightarrow> menu_node list" where
  "days_loop l i [] = []"
| "days_loop l i (d # ds) =
     [HR, H4 (day_heading l i d), HR, course_list (case courses d of None \<Rightarrow> [] | Some cs \<Rightarrow> cs)]
     @ days_loop l (i + 1) ds"

text \<open>
  The markup of the weekly menu, as the list of its elements: the single-day shape when
  the week has exactly one day and that day has courses, the per-day shape otherwise.
\<close>

definition weekly_html :: "lang \<Rightarrow> week \<Rightarrow> menu_node list" where
  "weekly_html l w =
     (case days w of
        [d] \<Rightarrow>
          (case courses d of
             Some all \<Rightarrow> chunk_loop l all (nat \<lceil>real (length all) / 5\<rceil>) 0 []
           | None \<Rightarrow> days_loop l 0 [d])
      | ds \<Rightarrow> days_loop l 0 ds)"

definition displayMenu :: "menu_title \<Rightarrow> menu_node list \<Rightarrow> app \<Rightarrow> app" where
  "displayMenu title content st =
     (case menuDisplay st of
        None \<Rightarrow> st
      | Some m \<Rightarrow>
          st\<lparr>menuDisplay := Some \<lparr>menuTitle = title, menuContent = content, shown = True\<rparr>,
             body_overflow_hidden := True\<rparr>)"

definition lang_code :: "lang \<Rightarrow> string" where
  "lang_code l = (if l = En then ''en'' else ''fi'')"

text \<open>
  The address of the weekly menu of a restaurant, in the language of the language select
  (\<^verbatim>\<open>el.langSelect?.value || selectedLang\<close>).
\<close>

definition weekly_url :: "string \<Rightarrow> app \<Rightarrow> string" where
  "weekly_url rid st =
     (let l = (case langSelect st of None \<Rightarrow> selectedLang st | Some v \<Rightarrow> v)
      in API_BASE @ ''/restaurants/weekly/'' @ rid @ ''/'' @ lang_code l)"

definition showWeeklyMenu ::
  "(string \<Rightarrow> options \<Rightarrow> week fetch_result) \<Rightarrow> string \<Rightarrow> app \<Rightarrow> app" where
  "showWeeklyMenu fetch rid st =
     (case find (\<lambda>x. r_id x = rid) (restaurants st) of
        None \<Rightarrow> st
      | Some r \<Rightarrow>
          (case apiFetch fetch (weekly_url rid st) no_options st of
             (Inl err, st1) \<Rightarrow> displayMenu (Title (name r) None) [No_menu] st1
           | (Inr w, st1) \<Rightarrow>
               (let html = weekly_html (selectedLang st1) w
                in displayMenu (Title (name r) (Some Weekly))
                     (if html \<noteq> [] then html else [No_menu]) st1)))"

text \<open>The courses that a piece of menu markup lists, in the order of the markup.\<close>

definition listed_courses :: "menu_node list \<Rightarrow> course list" where
  "listed_courses html = concat (map (\<lambda>n. case n of UL cs \<Rightarrow> cs | _ \<Rightarrow> []) html)"

text \<open>The lists of courses under the headings of a piece of menu markup, one per heading.\<close>

fun buckets :: "menu_node list \<Rightarrow> (heading \<times> course list) list" where
  "buckets (H4 h # UL cs # html) = (h, cs) # buckets html"
| "buckets (H4 h # No_menu # html) = (h, []) # buckets html"
| "buckets (n # html) = buckets html"
| "buckets [] = []"

section \<open>The directory refresh of the first revision\<close>

text \<open>
  The first revision (\<^verbatim>\<open>src/index.js\<close>) has no remote data client:
  \<^verbatim>\<open>fetchRestaurants\<close> calls \<^verbatim>\<open>fetch\<close> itself and assigns the parsed body to
  \<^verbatim>\<open>restaurants\<close> without reading \<^verbatim>\<open>ok\<close> or \<^verbatim>\<open>status\<close>. The variable therefore
  holds whatever the body was: an array of restaurants, or a JSON value that is no array.
  The page of this revision is a state of its own, with the elements that the refresh
  writes, all of which the revision takes to exist; \<open>favorite_first\<close> is
  \<^verbatim>\<open>currentUser?.favoriteRestaurant\<close>.
\<close>

datatype non_array =
    NNull
  | NBool bool
  | NNum real string
  | NStr string
  | NObj "(string \<times> js_value) list"

datatype directory = Listing "restaurant list" | Other non_array

datatype first_response = First_response bool nat "string + directory"

datatype first_fetch_result = First_rejected string | First_resolved first_response

record first_app =
  restaurants_first :: directory
  favorite_first :: "string option"
  restaurantList_first :: "node list"
  cityFilter_first :: "(string \<times> string) list"
  providerFilter_first :: "(string \<times> string) list"
  favoriteRestaurant_first :: "(string \<times> string) list"

definition API_BASE_first :: string where
  "API_BASE_first = ''https://media2.edu.metropolia.fi/restaurant/api/v1/restaurants''"

text \<open>\<^verbatim>\<open>populateFilters\<close> of the first revision appends the options and removes none.\<close>

definition populateFilters_first :: "restaurant list \<Rightarrow> first_app \<Rightarrow> first_app" where
  "populateFilters_first rs st =
     (let cities = sort (remdups (map city rs));
          providers = sort (remdups (map company rs))
      in st\<lparr>cityFilter_first := cityFilter_first st @ map (\<lambda>c. (c, c)) cities,
            providerFilter_first := providerFilter_first st @ map (\<lambda>c. (c, c)) providers,
            favoriteRestaurant_first :=
              favoriteRestaurant_first st @ map option_of_restaurant rs\<rparr>)"

text \<open>
  \<^verbatim>\<open>renderRestaurants\<close> of the first revision renders the list as given, with a border
  around the favourite's card, or a paragraph when the list is empty.
\<close>

definition renderRestaurants_first :: "restaurant list \<Rightarrow> first_app \<Rightarrow> first_app" where
  "renderRestaurants_first list st =
     (if list = [] then st\<lparr>restaurantList_first := [No_results]\<rparr>
      else st\<lparr>restaurantList_first :=
                map (\<lambda>r. Card \<lparr>card_of = r,
                                 favorite_highlight = (favorite_first st = Some (r_id r)),
                                 distance_km = None, favBtn = None, nearest = False\<rparr>) list\<rparr>)"

text \<open>
  \<^verbatim>\<open>fetchRestaurants\<close> of the first revision. With a body that is no array
  \<^verbatim>\<open>populateFilters\<close> throws at \<^verbatim>\<open>restaurants.map\<close>, after the assignment. The map
  and the search for the nearest restaurant are outside the model; whether \<^verbatim>\<open>initMap\<close>
  fails is an input.
\<close>

definition fetchRestaurants_first ::
  "(string \<Rightarrow> first_fetch_result) \<Rightarrow> bool \<Rightarrow> first_app \<Rightarrow> first_app" where
  "fetchRestaurants_first fetch initMap_fails st =
     (case fetch API_BASE_first of
        First_rejected m \<Rightarrow> st\<lparr>restaurantList_first := [Load_failed]\<rparr>
      | First_resolved (First_response is_ok s (Inl m)) \<Rightarrow> st\<lparr>restaurantList_first := [Load_failed]\<rparr>
      | First_resolved (First_response is_ok s (Inr body)) \<Rightarrow>
          (let st1 = st\<lparr>restaurants_first := body\<rparr>
           in case body of
                Other v \<Rightarrow> st1\<lparr>restaurantList_first := [Load_failed]\<rparr>
              | Listing rs \<Rightarrow>
                  (let st2 = renderRestaurants_first rs (populateFilters_first rs st1)
                   in if initMap_fails then st2\<lparr>restaurantList_first := [Load_failed]\<rparr>
                      else st2)))"

section \<open>Example data\<close>

text \<open>
  The page after loading, before anything was fetched: the module's initial values and
  the elements of the page, and a few restaurants, a user and a menu for the examples below.
\<close>

definition example_page :: app where
  "example_page =
     \<lparr>restaurants = [], currentUser = None, token = None, selectedLang = Fi,
      localStorage = Map.empty, console = [], alerts = [],
      restaurantList = Some [],
      loginBtn = Some \<lparr>hidden = False, textContent = None\<rparr>,
      registerBtn = Some \<lparr>hidden = False, textContent = None\<rparr>,
      profileBtn = Some \<lparr>hidden = True, textContent = None\<rparr>,
      logoutBtn = Some \<lparr>hidden = True, textContent = None\<rparr>,
      username_input = Some [], email_input = Some [],
      favoriteRestaurant = Some ([(''Valitse suosikkiravintola'', [])], []),
      profilePic = Some (Pic_url []),
      cityFilter = Some [(''Kaikki kaupungit'', [])],
      providerFilter = Some [(''Kaikki palveluntarjoajat'', [])],
      langSelect = Some Fi,
      menuDisplay = Some \<lparr>menuTitle = Untitled, menuContent = [], shown = False\<rparr>,
      body_overflow_hidden = False\<rparr>"

definition restaurant_far :: restaurant where
  "restaurant_far =
     \<lparr>r_id = ''r1'', name = Some ''A'', address = ''Katu 1'', city = ''Helsinki'',
      company = ''X'', coordinates = Some (180, 0)\<rparr>"

definition restaurant_unlocated :: restaurant where
  "restaurant_unlocated =
     \<lparr>r_id = ''r2'', name = Some ''B'', address = ''Katu 2'', city = ''Espoo'',
      company = ''Y'', coordinates = None\<rparr>"

definition restaurant_near :: restaurant where
  "restaurant_near =
     \<lparr>r_id = ''r3'', name = Some ''C'', address = ''Katu 3'', city = ''Helsinki'',
      company = ''Y'', coordinates = Some (0, 0)\<rparr>"

definition example_list :: "restaurant list" where
  "example_list = [restaurant_far, restaurant_unlocated, restaurant_near]"

definition example_location :: location where
  "example_location = \<lparr>lat = 0, lng = 0\<rparr>"

definition example_user :: user where
  "example_user =
     \<lparr>username = Some ''u'', email = None, favouriteRestaurant = Some ''r3'', avatar = None\<rparr>"

definition dish :: "string \<Rightarrow> course" where
  "dish n = \<lparr>course_name = Some n, diets = None, price = None\<rparr>"

definition ten_courses :: "course list" where
  "ten_courses =
     map dish [''c0'', ''c1'', ''c2'', ''c3'', ''c4'', ''c5'', ''c6'', ''c7'', ''c8'', ''c9'']"

definition single_day_week :: week where
  "single_day_week = \<lparr>days = [\<lparr>date = None, courses = Some ten_courses\<rparr>]\<rparr>"

text \<open>A stand-in for \<^verbatim>\<open>JSON.parse\<close> that reads the text \<^verbatim>\<open>null\<close> and rejects the rest.\<close>

definition example_parse :: "string \<Rightarrow> string + user option" where
  "example_parse s = (if s = ''null'' then Inr None else Inl ''Unexpected token in JSON'')"

text \<open>A page whose local storage holds a token and a user payload that is cut off.\<close>

definition page_with_corrupt_user :: app where
  "page_with_corrupt_user =
     example_page\<lparr>localStorage := [''token'' \<mapsto> ''t1'', ''currentUser'' \<mapsto> ''{username'']\<rparr>"

text \<open>A page of the first revision that shows three restaurants.\<close>

definition example_first_page :: first_app where
  "example_first_page =
     \<lparr>restaurants_first = Listing example_list, favorite_first = None,
      restaurantList_first = [],
      cityFilter_first = [(''Kaikki kaupungit'', [])],
      providerFilter_first = [(''Kaikki palveluntarjoajat'', [])],
      favoriteRestaurant_first = [(''Valitse suosikkiravintola'', [])]\<rparr>"


definition not_found_first :: directory where
  "not_found_first = Other (NObj [(''message'', JStr ''Not found'')])"

text \<open>
  The doubles of the distance between the points \<open>(-12, -180)\<close> and \<open>(12, 0)\<close>: the
  halves of \<^verbatim>\<open>toRad(24)\<close> and of \<^verbatim>\<open>toRad(180)\<close>, which are 12 and 90 degrees in
  radians, the doubles nearest to the sine and the cosine of the former, and the square of
  that sine.
\<close>

definition radians_12 :: real where
  "radians_12 = 7545853602163669 / 2 ^ 55"

definition radians_90 :: real where
  "radians_90 = 884279719003555 / 2 ^ 49"

definition sin_12 :: real where
  "sin_12 = 7490808106342645 / 2 ^ 55"

definition cos_12 :: real where
  "cos_12 = 68831018284033 / 2 ^ 46"

definition sin_12_squared :: real where
  "sin_12_squared = 6229706315924309 / 2 ^ 57"

text \<open>
  An engine whose sine and cosine are the nearest doubles at these angles (the nearest
  double to the sine of \<open>radians_90\<close> is 1) and whose squares are the exact squares
  rounded. The GNU C library and fdlibm, on which the common engines build, are such.
\<close>

definition nearest_at_12_and_90 :: "engine \<Rightarrow> bool" where
  "nearest_at_12_and_90 en \<longleftrightarrow>
     Math_sin en radians_12 = sin_12 \<and> Math_sin en (- radians_12) = - sin_12 \<and>
     Math_cos en radians_12 = cos_12 \<and> Math_cos en (- radians_12) = cos_12 \<and>
     Math_sin en radians_90 = 1 \<and> Math_sin en (- radians_90) = - 1 \<and>
     exponentiate en sin_12 2 = sin_12_squared \<and> exponentiate en (- sin_12) 2 = sin_12_squared \<and>
     exponentiate en 1 2 = 1 \<and> exponentiate en (- 1) 2 = 1"

text \<open>An engine given by a table of these values; its other values play no part.\<close>

definition table_engine :: engine where
  "table_engine =
     \<lparr>Math_sin = (\<lambda>x. if \<bar>x\<bar> = radians_12 then sgn x * sin_12 else sgn x),
      Math_cos = (\<lambda>x. if \<bar>x\<bar> = radians_12 then cos_12 else 1),
      Math_sqrt = (\<lambda>x. if x = 1 then 1 else 0),
      Math_atan2 = (\<lambda>y x. 0),
      exponentiate = (\<lambda>x y. if \<bar>x\<bar> = sin_12 then sin_12_squared else \<bar>x\<bar>)\<rparr>"

section \<open>The favourite comes first\<close>

lemma insert_favourite: "r_id x = f \<Longrightarrow> insert_cmp (favourite_cmp f) x ys = x # ys"
  by (cases ys) (simp_all add: favourite_cmp_def)

lemma insert_other:
  "r_id x \<noteq> f \<Longrightarrow> \<forall>y\<in>set as. r_id y = f \<Longrightarrow> \<forall>y\<in>set bs. r_id y \<noteq> f \<Longrightarrow>
   insert_cmp (favourite_cmp f) x (as @ bs) = as @ x # bs"
proof (induction as)
  case Nil
  then show ?case by (cases bs) (simp_all add: favourite_cmp_def)
next
  case (Cons a as)
  then show ?case by (simp add: favourite_cmp_def)
qed

lemma sort_favourite:
  "sort_cmp (favourite_cmp f) xs = filter (\<lambda>r. r_id r = f) xs @ filter (\<lambda>r. r_id r \<noteq> f) xs"
proof (induction xs)
  case Nil
  show ?case by simp
next
  case (Cons x xs)
  show ?case
  proof (cases "r_id x = f")
    case True
    then show ?thesis using Cons.IH by (simp add: insert_favourite)
  next
    case False
    then show ?thesis using Cons.IH by (simp add: insert_other)
  qed
qed

text \<open>Marking the nearest card changes no card's restaurant, so the cards are the sorted list.\<close>

lemma card_of_mark_first: "map card_of (mark_first cs) = map card_of cs"
  by (cases cs) (simp_all add: mark_first_def)

lemma card_of_mark_named: "map card_of (mark_named n cs) = map card_of cs"
  by (induction cs) (simp_all add: mark_named_def)

lemma card_of_highlight_nearest:
  "map card_of (highlight_nearest cu loc rs cs) = map card_of cs"
  by (simp add: highlight_nearest_def card_of_mark_first card_of_mark_named
      split: option.split list.split)

lemma card_of_make_card: "map (card_of \<circ> make_card cu loc) rs = rs"
  by (induction rs) (simp_all add: make_card_def)

lemma cards_of_nodes:
  "concat (map ((\<lambda>n. case n of Card c \<Rightarrow> [card_of c] | _ \<Rightarrow> []) \<circ> Card) cs) = map card_of cs"
  by (induction cs) simp_all

lemma highlight_nearest_Nil: "highlight_nearest cu loc rs [] = []"
  using card_of_highlight_nearest [of cu loc rs "[]"] by simp

lemma rendered_order_renderRestaurants:
  "restaurantList st = Some ns \<Longrightarrow>
   rendered_order (renderRestaurants loc list st) = sorted_restaurants (currentUser st) loc list"
  by (simp add: rendered_order_def renderRestaurants_def Let_def cards_of_nodes
      card_of_highlight_nearest card_of_make_card highlight_nearest_Nil)

text \<open>
  C1. When the page has the list element and the current user has a favourite (an id that
  is set and not empty) which is the id of a restaurant of the list, the cards are rendered
  with the favourite first and the other restaurants behind it in the order of the list,
  whatever the location is (known or not): the first card is the favourite's, and the cards
  of the other restaurants are in the order they had. The Leaflet revision sorts the same
  way.
\<close>

theorem favourite_first:
  assumes "restaurantList st = Some ns"
    and "favourite_of (currentUser st) = Some f"
    and "\<exists>r \<in> set list. r_id r = f"
  shows "(\<exists>r rs. rendered_order (renderRestaurants loc list st) = r # rs \<and> r_id r = f)
         \<and> filter (\<lambda>r. r_id r \<noteq> f) (rendered_order (renderRestaurants loc list st)) =
             filter (\<lambda>r. r_id r \<noteq> f) list
         \<and> length (rendered_order (renderRestaurants loc list st)) = length list
         \<and> set (rendered_order (renderRestaurants loc list st)) = set list
         \<and> sorted_restaurants_leaflet (currentUser st) list =
             rendered_order (renderRestaurants loc list st)"
proof -
  let ?out = "rendered_order (renderRestaurants loc list st)"
  have out: "?out = filter (\<lambda>r. r_id r = f) list @ filter (\<lambda>r. r_id r \<noteq> f) list"
    using assms(1,2)
    by (simp add: rendered_order_renderRestaurants sorted_restaurants_def sort_favourite)
  from assms(3) obtain r rs where favs: "filter (\<lambda>r. r_id r = f) list = r # rs"
    by (cases "filter (\<lambda>r. r_id r = f) list") (auto simp: filter_empty_conv)
  then have "r \<in> set (filter (\<lambda>r. r_id r = f) list)"
    by simp
  then have "r_id r = f"
    by simp
  with favs have hd: "\<exists>r rs. ?out = r # rs \<and> r_id r = f"
    using out by simp
  have rest: "filter (\<lambda>r. r_id r \<noteq> f) ?out = filter (\<lambda>r. r_id r \<noteq> f) list"
    unfolding out by simp
  have leaflet: "sorted_restaurants_leaflet (currentUser st) list = ?out"
    using assms(2) out by (simp add: sorted_restaurants_leaflet_def sort_favourite)
  have "length ?out = length list"
    unfolding out using sum_length_filter_compl [of "\<lambda>r. r_id r = f" list] by simp
  moreover have "set ?out = set list"
    unfolding out by auto
  ultimately show ?thesis using hd rest leaflet by blast
qed

theorem favourite_first_witness:
  "rendered_order
     (renderRestaurants (Some example_location) example_list
        (example_page\<lparr>currentUser := Some example_user\<rparr>)) =
   [restaurant_near, restaurant_far, restaurant_unlocated]"
  using favourite_first [of "example_page\<lparr>currentUser := Some example_user\<rparr>" "[]" "''r3''"
      example_list "Some example_location"]
  by (simp add: example_page_def example_user_def favourite_of_def example_list_def
      restaurant_far_def restaurant_unlocated_def restaurant_near_def
      sorted_restaurants_leaflet_def favourite_cmp_def)

section \<open>The order by distance\<close>

lemma haversine_near: "haversine 0 0 0 0 = 0"
  by (simp add: haversine_def toRad_def atan2_def)

lemma haversine_far: "haversine 0 0 0 180 = 6371 * pi"
  by (simp add: haversine_def toRad_def atan2_def)

lemma set_insert_cmp: "set (insert_cmp cmp x ys) = insert x (set ys)"
  by (induction ys) auto

lemma set_sort_cmp: "set (sort_cmp cmp xs) = set xs"
  by (induction xs) (simp_all add: set_insert_cmp)

lemma sorted_insert_cmp:
  fixes k :: "'a \<Rightarrow> real"
  assumes "\<And>y. y \<in> set ys \<Longrightarrow> cmp x y = k x - k y"
    and "sorted_wrt (\<lambda>a b. k a \<le> k b) ys"
  shows "sorted_wrt (\<lambda>a b. k a \<le> k b) (insert_cmp cmp x ys)"
  using assms
proof (induction ys)
  case Nil
  show ?case by simp
next
  case (Cons y ys)
  show ?case
  proof (cases "0 < cmp x y")
    case True
    with Cons.prems(1) [of y] have "k y \<le> k x" by simp
    moreover have "sorted_wrt (\<lambda>a b. k a \<le> k b) (insert_cmp cmp x ys)"
      using Cons by simp
    ultimately show ?thesis
      using True Cons.prems(2) by (auto simp: set_insert_cmp)
  next
    case False
    with Cons.prems(1) [of y] have "k x \<le> k y" by simp
    then show ?thesis
      using False Cons.prems(2) by fastforce
  qed
qed

lemma sorted_sort_cmp:
  fixes k :: "'a \<Rightarrow> real"
  assumes "\<And>x y. x \<in> set xs \<Longrightarrow> y \<in> set xs \<Longrightarrow> cmp x y = k x - k y"
  shows "sorted_wrt (\<lambda>a b. k a \<le> k b) (sort_cmp cmp xs)"
  using assms
proof (induction xs)
  case Nil
  show ?case by simp
next
  case (Cons x xs)
  have "sorted_wrt (\<lambda>a b. k a \<le> k b) (sort_cmp cmp xs)"
    using Cons by simp
  moreover have "cmp x y = k x - k y" if "y \<in> set (sort_cmp cmp xs)" for y
    using that Cons.prems by (simp add: set_sort_cmp)
  ultimately have "sorted_wrt (\<lambda>a b. k a \<le> k b) (insert_cmp cmp x (sort_cmp cmp xs))"
    by (intro sorted_insert_cmp)
  then show ?case
    by simp
qed

text \<open>
  When every restaurant of the list has coordinates, the comparator is the difference of the
  distances and the cards are in non-decreasing order of distance.
\<close>

lemma distance_order_located:
  assumes "restaurantList st = Some ns"
    and "favourite_of (currentUser st) = None"
    and "\<forall>r \<in> set list. coordinates r \<noteq> None"
  shows "sorted_wrt (\<lambda>a b. \<forall>da db. distance_to l a = Some da \<and> distance_to l b = Some db \<longrightarrow> da \<le> db)
           (rendered_order (renderRestaurants (Some l) list st))"
proof -
  let ?k = "\<lambda>r. case distance_to l r of None \<Rightarrow> 0 | Some d \<Rightarrow> d"
  have "distance_cmp l x y = ?k x - ?k y" if "x \<in> set list" and "y \<in> set list" for x y
    using that assms(3) by (auto simp: distance_cmp_def distance_to_def split: option.split)
  then have "sorted_wrt (\<lambda>a b. ?k a \<le> ?k b) (sort_cmp (distance_cmp l) list)"
    by (rule sorted_sort_cmp)
  then have "sorted_wrt (\<lambda>a b. \<forall>da db. distance_to l a = Some da \<and> distance_to l b = Some db \<longrightarrow> da \<le> db)
      (sort_cmp (distance_cmp l) list)"
    by (rule sorted_wrt_mono_rel [rotated]) auto
  then show ?thesis
    using assms(1,2) by (simp add: rendered_order_renderRestaurants sorted_restaurants_def)
qed

text \<open>
  C2. The claim is that, without a favourite and with a known location, the cards are in
  non-decreasing order of distance. The comparator of \<^verbatim>\<open>renderRestaurants\<close> answers 0 as
  soon as one of the two restaurants has no coordinates, so a restaurant without coordinates
  between two others keeps them apart: for the user at latitude 0 and longitude 0, the list
  of a restaurant at distance \<open>6371 * pi\<close> km, a restaurant without coordinates and a
  restaurant at distance 0 is rendered in this order, the farther card before the nearer,
  and the first card, the farthest, gets the \<^verbatim>\<open>nearest\<close> class.
\<close>

theorem distance_order_broken:
  "favourite_of (currentUser example_page) = None \<and>
   rendered_order (renderRestaurants (Some example_location) example_list example_page) =
     [restaurant_far, restaurant_unlocated, restaurant_near] \<and>
   distance_to example_location restaurant_far = Some (6371 * pi) \<and>
   distance_to example_location restaurant_unlocated = None \<and>
   distance_to example_location restaurant_near = Some 0 \<and>
   (0::real) < 6371 * pi \<and>
   (\<exists>c cs. restaurantList
              (renderRestaurants (Some example_location) example_list example_page) =
            Some (Card c # cs) \<and>
          card_of c = restaurant_far \<and> nearest c)"
proof -
  have cu: "currentUser example_page = None"
    and view: "restaurantList example_page = Some []"
    by (simp_all add: example_page_def)
  have order: "sorted_restaurants None (Some example_location) example_list =
      [restaurant_far, restaurant_unlocated, restaurant_near]"
    by (simp add: favourite_of_def sorted_restaurants_def example_list_def
        distance_cmp_def restaurant_far_def restaurant_unlocated_def restaurant_near_def
        example_location_def haversine_near haversine_far)
  have first: "\<exists>c cs. restaurantList
              (renderRestaurants (Some example_location) example_list example_page) =
            Some (Card c # cs) \<and>
          card_of c = restaurant_far \<and> nearest c"
    unfolding renderRestaurants_def Let_def cu view order
    by (simp add: highlight_nearest_def favourite_of_def mark_first_def
        make_card_def restaurant_far_def)
  have "favourite_of (currentUser example_page) = None"
    unfolding cu by (simp add: favourite_of_def)
  moreover have "rendered_order
      (renderRestaurants (Some example_location) example_list example_page) =
      [restaurant_far, restaurant_unlocated, restaurant_near]"
    using rendered_order_renderRestaurants [OF view, of "Some example_location" example_list]
    unfolding cu order by simp
  moreover have "distance_to example_location restaurant_far = Some (6371 * pi)"
    and "distance_to example_location restaurant_unlocated = None"
    and "distance_to example_location restaurant_near = Some 0"
    by (simp_all add: distance_to_def restaurant_far_def restaurant_unlocated_def
        restaurant_near_def example_location_def haversine_near haversine_far)
  moreover have "(0::real) < 6371 * pi"
    by simp
  ultimately show ?thesis
    using first by (intro conjI)
qed

section \<open>The filters commute\<close>

text \<open>
  C7. For every list of restaurants and every value of the city filter and of the provider
  filter, filtering by city and then by provider gives the same list as filtering by
  provider and then by city; \<^verbatim>\<open>filterAndRender\<close>, which applies the city filter first,
  renders what it would render with the two filters swapped.
\<close>

theorem filter_commute:
  "filter_provider p (filter_city c rs) = filter_city c (filter_provider p rs) \<and>
   filterAndRender c p s loc st =
     renderRestaurants loc (filter_search s (filter_city c (filter_provider p (restaurants st)))) st"
proof -
  have "filter_provider p (filter_city c rs) = filter_city c (filter_provider p rs)" for rs
    by (simp add: filter_provider_def filter_city_def conj_commute)
  then show ?thesis
    by (simp add: filterAndRender_def)
qed

section \<open>The distance over the real numbers\<close>

lemma sin_sym: "(sin (toRad (x - y) / 2))\<^sup>2 = (sin (toRad (y - x) / 2))\<^sup>2"
proof -
  have "toRad (x - y) / 2 = - (toRad (y - x) / 2)"
    by (simp add: toRad_def field_simps)
  then show ?thesis
    by (simp only: sin_minus power2_minus)
qed

text \<open>
  Over the real numbers the formula is zero from a point to itself and symmetric. The
  program computes it in doubles, where \<open>a\<close> can round above 1 for points that are nearly
  antipodal, \<^verbatim>\<open>Math.sqrt(1 - a)\<close> is then NaN and so is the result; this is outside what
  the real numbers show.
\<close>

lemma haversine_real_symmetric:
  "haversine lat1 lon1 lat1 lon1 = 0 \<and>
   haversine lat1 lon1 lat2 lon2 = haversine lat2 lon2 lat1 lon1"
proof
  show "haversine lat1 lon1 lat1 lon1 = 0"
    by (simp add: haversine_def toRad_def atan2_def)
  show "haversine lat1 lon1 lat2 lon2 = haversine lat2 lon2 lat1 lon1"
    unfolding haversine_def Let_def
    by (simp only: sin_sym [of lat2 lat1] sin_sym [of lon2 lon1] mult.commute [of "cos (toRad lat1)"])
qed

section \<open>The distance in double arithmetic can be NaN\<close>

text \<open>
  The exponent search of the rounding finds the binade of every magnitude that a double
  has: the fuel is never used up.
\<close>

lemma pow2_powi: "pow2 e = 2 powi e"
  by (simp add: pow2_def power_int_def inverse_eq_divide power_one_over)

lemma pow2_Suc: "pow2 (e + 1) = 2 * pow2 e"
  by (simp add: pow2_powi power_int_add)

lemma exponent_of_stay: "1 \<le> x \<Longrightarrow> x < 2 \<Longrightarrow> exponent_of k x e = e"
  by (cases k) simp_all

lemma exponent_of_up:
  "1 \<le> x \<Longrightarrow> x < 2 ^ Suc k \<Longrightarrow>
   \<exists>n\<le>k. exponent_of k x e = e + int n \<and> 2 ^ n \<le> x \<and> x < 2 ^ Suc n"
proof (induction k arbitrary: x e)
  case 0
  then show ?case by simp
next
  case (Suc k)
  show ?case
  proof (cases "2 \<le> x")
    case True
    with Suc.prems have "1 \<le> x / 2" and "x / 2 < 2 ^ Suc k"
      by simp_all
    from Suc.IH [OF this, of "e + 1"] obtain n where n: "n \<le> k"
      "exponent_of k (x / 2) (e + 1) = e + 1 + int n" "2 ^ n \<le> x / 2" "x / 2 < 2 ^ Suc n"
      by blast
    show ?thesis
    proof (intro exI [of _ "Suc n"] conjI)
      show "Suc n \<le> Suc k" using n(1) by simp
      show "exponent_of (Suc k) x e = e + int (Suc n)" using True n(2) by simp
      show "2 ^ Suc n \<le> x" using n(3) by simp
      show "x < 2 ^ Suc (Suc n)" using n(4) by simp
    qed
  next
    case False
    with Suc.prems show ?thesis
      by (intro exI [of _ 0]) simp
  qed
qed

lemma exponent_of_down:
  "0 \<le> x \<Longrightarrow> x < 1 \<Longrightarrow> - 1022 \<le> e \<Longrightarrow> e \<le> int k - 1022 \<Longrightarrow>
   \<exists>n. exponent_of k x e = e - int n \<and> - 1022 \<le> e - int n \<and> x * 2 ^ n < 2 \<and>
       (1 \<le> x * 2 ^ n \<or> e - int n = - 1022)"
proof (induction k arbitrary: x e)
  case 0
  then show ?case
    by (intro exI [of _ 0]) simp
next
  case (Suc k)
  show ?case
  proof (cases "- 1022 < e")
    case False
    with Suc.prems show ?thesis
      by (intro exI [of _ 0]) simp
  next
    case True
    with Suc.prems have step: "exponent_of (Suc k) x e = exponent_of k (x * 2) (e - 1)"
      by simp
    show ?thesis
    proof (cases "x * 2 < 1")
      case False
      with Suc.prems have "exponent_of k (x * 2) (e - 1) = e - 1"
        by (intro exponent_of_stay) simp_all
      with step False True Suc.prems show ?thesis
        by (intro exI [of _ 1]) simp
    next
      case small: True
      from Suc.prems True have "0 \<le> x * 2" "- 1022 \<le> e - 1" "e - 1 \<le> int k - 1022"
        by simp_all
      from Suc.IH [OF this(1) small this(2,3)] obtain n where
        n: "exponent_of k (x * 2) (e - 1) = e - 1 - int n" "- 1022 \<le> e - 1 - int n"
           "x * 2 * 2 ^ n < 2" "1 \<le> x * 2 * 2 ^ n \<or> e - 1 - int n = - 1022"
        by blast
      show ?thesis
      proof (intro exI [of _ "Suc n"] conjI)
        show "exponent_of (Suc k) x e = e - int (Suc n)" using step n(1) by simp
        show "- 1022 \<le> e - int (Suc n)" using n(2) by simp
        show "x * 2 ^ Suc n < 2" using n(3) by (simp add: mult.assoc)
        show "1 \<le> x * 2 ^ Suc n \<or> e - int (Suc n) = - 1022" using n(4) by (simp add: mult.assoc)
      qed
    qed
  qed
qed

lemma exponent_of_binade:
  assumes "0 \<le> x" and "x < 2 ^ 1024"
  shows "- 1022 \<le> exponent_of 2100 x 0 \<and> exponent_of 2100 x 0 \<le> 1023
         \<and> x < pow2 (exponent_of 2100 x 0 + 1)
         \<and> (pow2 (exponent_of 2100 x 0) \<le> x \<or> exponent_of 2100 x 0 = - 1022)"
proof (cases "1 \<le> x")
  case True
  have "(2::real) ^ 1024 \<le> 2 ^ Suc 2100"
    by (rule power_increasing) simp_all
  with assms have "x < 2 ^ Suc 2100"
    by simp
  from exponent_of_up [OF True this, of 0] obtain n where
    n: "exponent_of 2100 x 0 = int n" "2 ^ n \<le> x" "x < 2 ^ Suc n"
    by auto
  from n(2) assms(2) have "(2::real) ^ n < 2 ^ 1024"
    by simp
  then have "n < 1024"
    by (rule power_less_imp_less_exp [rotated]) simp
  with n show ?thesis
    by (simp add: pow2_Suc) (simp add: pow2_def)
next
  case False
  with assms have "x < 1"
    by simp
  from exponent_of_down [OF assms(1) this, of 0 2100] obtain n where
    n: "exponent_of 2100 x 0 = - int n" "- 1022 \<le> - int n" "x * 2 ^ n < 2"
       "1 \<le> x * 2 ^ n \<or> - int n = - 1022"
    by auto
  have p: "pow2 (- int n) = 1 / 2 ^ n"
    by (simp add: pow2_powi power_int_minus inverse_eq_divide)
  from n(3) have "x < 2 * (1 / 2 ^ n)"
    by (simp add: field_simps)
  moreover from n(4) have "1 / 2 ^ n \<le> x \<or> - int n = - 1022"
    by (auto simp add: field_simps)
  moreover have "pow2 (exponent_of 2100 x 0 + 1) = 2 * (1 / 2 ^ n)"
    unfolding n(1) pow2_Suc p ..
  ultimately show ?thesis
    using n(1,2) by (simp add: p)
qed

lemma exponent_of_numeral:
  "exponent_of (numeral k) x e =
     (if 2 \<le> x then exponent_of (pred_numeral k) (x / 2) (e + 1)
      else if x < 1 \<and> - 1022 < e then exponent_of (pred_numeral k) (x * 2) (e - 1)
      else e)"
  by (simp add: numeral_eq_Suc)

lemmas fl_eval = fl_def exponent_of_numeral pow2_def round_half_even_def Let_def

lemma fl_values:
  "fl 0 = 0" "fl 1 = 1" "fl 24 = 24" "fl 180 = 180" "fl (- 24) = - 24" "fl (- 180) = - 180"
  "fl 12742 = 12742"
  by (simp_all add: fl_eval)

lemma square_rounded: "fl (sin_12 * sin_12) = sin_12_squared"
  by (simp add: sin_12_def sin_12_squared_def fl_eval)

lemma angles:
  "toRad_double (js_sub (Num 12) (Num (- 12))) = Num (2 * radians_12)"
  "toRad_double (js_sub (Num (- 12)) (Num 12)) = Num (- (2 * radians_12))"
  "toRad_double (js_sub (Num 0) (Num (- 180))) = Num (2 * radians_90)"
  "toRad_double (js_sub (Num (- 180)) (Num 0)) = Num (- (2 * radians_90))"
  "toRad_double (Num 12) = Num radians_12"
  "toRad_double (Num (- 12)) = Num (- radians_12)"
  by (simp_all add: toRad_double_def Math_PI_def radians_12_def radians_90_def fl_eval)

lemma halves:
  "js_div (Num (2 * radians_12)) (Num 2) = Num radians_12"
  "js_div (Num (- (2 * radians_12))) (Num 2) = Num (- radians_12)"
  "js_div (Num (2 * radians_90)) (Num 2) = Num radians_90"
  "js_div (Num (- (2 * radians_90))) (Num 2) = Num (- radians_90)"
  by (simp_all add: radians_12_def radians_90_def fl_eval)

lemma above_one:
  "js_add (Num sin_12_squared) (js_mul (js_mul (Num cos_12) (Num cos_12)) (Num 1)) =
     Num (1 + 1 / 2 ^ 52)"
  by (simp add: sin_12_squared_def cos_12_def fl_eval)

lemma below_zero: "js_sub (Num 1) (Num (1 + 1 / 2 ^ 52)) = Num (- (1 / 2 ^ 52))"
  by (simp add: fl_eval)

lemma js_sqrt_negative: "js_sqrt en (Num (- (1 / 2 ^ 52))) = NaN"
  by simp

lemma js_atan2_NaN: "js_atan2 en y NaN = NaN"
  by (cases y) simp_all

lemma js_mul_NaN: "js_mul x NaN = NaN"
  by (cases x) simp_all

text \<open>
  From a point to itself the distance is 0 in double arithmetic too, for every engine with
  the values that ECMAScript fixes at 0 and 1.
\<close>

lemma haversine_double_same_point:
  assumes "Math_sin en 0 = 0" and "exponentiate en 0 2 = 0" and "Math_sqrt en 0 = 0"
    and "Math_sqrt en 1 = 1" and "Math_atan2 en 0 1 = 0"
    and "\<bar>lat0\<bar> \<le> 90" and "\<bar>lon0\<bar> \<le> 180"
  shows "haversine_double en (Num lat0) (Num lon0) (Num lat0) (Num lon0) = Num 0"
  unfolding haversine_double_def Let_def toRad_double_def
  by (simp add: fl_values assms)

text \<open>
  C8. The code does not do what the claim says: for the valid points \<open>(-12, -180)\<close> and
  \<open>(12, 0)\<close>, which are nearly antipodal, and every engine whose sine and cosine are the
  nearest doubles at the angles of this call, \<open>a\<close> rounds to the double above 1,
  \<^verbatim>\<open>Math.sqrt(1 - a)\<close> is NaN and so is the distance, in both directions; the two
  distances are not equal, since NaN equals nothing.
\<close>

theorem haversine_nan_near_antipodes:
  assumes "nearest_at_12_and_90 en"
  shows "haversine_double en (Num (- 12)) (Num (- 180)) (Num 12) (Num 0) = NaN
         \<and> haversine_double en (Num 12) (Num 0) (Num (- 12)) (Num (- 180)) = NaN
         \<and> \<not> js_equals (haversine_double en (Num (- 12)) (Num (- 180)) (Num 12) (Num 0))
                (haversine_double en (Num 12) (Num 0) (Num (- 12)) (Num (- 180)))"
proof -
  from assms have sin_there: "js_sin en (Num radians_12) = Num sin_12"
      "js_sin en (Num radians_90) = Num 1"
    and sin_back: "js_sin en (Num (- radians_12)) = Num (- sin_12)"
      "js_sin en (Num (- radians_90)) = Num (- 1)"
    and cos: "js_cos en (Num radians_12) = Num cos_12" "js_cos en (Num (- radians_12)) = Num cos_12"
    and pow: "js_pow en (Num sin_12) (Num 2) = Num sin_12_squared"
      "js_pow en (Num (- sin_12)) (Num 2) = Num sin_12_squared"
      "js_pow en (Num 1) (Num 2) = Num 1" "js_pow en (Num (- 1)) (Num 2) = Num 1"
    by (simp_all add: nearest_at_12_and_90_def)
  have one_way: "haversine_double en (Num (- 12)) (Num (- 180)) (Num 12) (Num 0) = NaN"
    unfolding haversine_double_def Let_def
    by (simp only: angles halves sin_there cos pow above_one below_zero js_sqrt_negative
        js_atan2_NaN js_mul_NaN)
  have other_way: "haversine_double en (Num 12) (Num 0) (Num (- 12)) (Num (- 180)) = NaN"
    unfolding haversine_double_def Let_def
    by (simp only: angles halves sin_back cos pow above_one below_zero js_sqrt_negative
        js_atan2_NaN js_mul_NaN)
  show ?thesis
    by (simp add: one_way other_way)
qed

theorem haversine_nan_near_antipodes_witness:
  "nearest_at_12_and_90 table_engine
   \<and> haversine_double table_engine (Num (- 12)) (Num (- 180)) (Num 12) (Num 0) = NaN
   \<and> haversine_double table_engine (Num 12) (Num 0) (Num (- 12)) (Num (- 180)) = NaN"
proof -
  have table: "nearest_at_12_and_90 table_engine"
    by (simp add: nearest_at_12_and_90_def table_engine_def radians_12_def radians_90_def
        sin_12_def)
  from haversine_nan_near_antipodes [OF table] table show ?thesis
    by blast
qed

section \<open>Failures of the remote data client\<close>


lemma apiFetch_cases:
  "(\<exists>m. apiFetch fetch url opts st = api_catch (JsError m) st) \<or>
   (\<exists>d. apiFetch fetch url opts st = (Inr d, st))"
  by (auto simp add: apiFetch_def split: fetch_result.split response.split sum.split)








text \<open>
  C4, as amended. When the transport fails (\<^verbatim>\<open>fetch\<close> rejects), \<^verbatim>\<open>apiFetch\<close> fails
  with the error of the transport, logs its message and raises exactly one notification:
  the fixed text for an unreachable server when the message of the error contains
  \<^verbatim>\<open>Failed to fetch\<close>, and the message of the error itself otherwise.
\<close>

theorem apiFetch_rejected:
  assumes "fetch url (opts\<lparr>opt_headers := request_headers opts st\<rparr>) = Rejected m"
  shows "apiFetch fetch url opts st =
           (Inl (JsError m),
            st\<lparr>console := console st @ [(''API Error:'', m)],
               alerts := alerts st @
                 [if str_includes m ''Failed to fetch'' then cannot_reach_server else m]\<rparr>)
         \<and> (str_includes m ''Failed to fetch'' \<longrightarrow>
              alerts (snd (apiFetch fetch url opts st)) = alerts st @ [cannot_reach_server])"
  using assms by (simp add: apiFetch_def api_catch_def)

theorem apiFetch_rejected_witness:
  "fst (apiFetch (\<lambda>u p. Rejected ''Failed to fetch'') (API_BASE @ ''/restaurants'') no_options
          example_page :: (js_error + restaurant list) \<times> app) = Inl (JsError ''Failed to fetch'')
   \<and> alerts (snd (apiFetch (\<lambda>u p. Rejected ''Failed to fetch'') (API_BASE @ ''/restaurants'')
          no_options example_page :: (js_error + restaurant list) \<times> app)) = [cannot_reach_server]"
  using apiFetch_rejected [of "\<lambda>u p. Rejected ''Failed to fetch'' :: restaurant list fetch_result"
      "API_BASE @ ''/restaurants''" no_options example_page "''Failed to fetch''"]
  by (simp add: example_page_def)

text \<open>
  The claim as stated fails: a request that timed out rejects with another message, and
  so does a request without a connection in an engine that words the error differently;
  the notification shows that message, not the fixed text.
\<close>

theorem timeout_not_cannot_reach:
  "fst (apiFetch (\<lambda>u p. Rejected ''The operation timed out'') (API_BASE @ ''/restaurants'')
          no_options example_page :: (js_error + restaurant list) \<times> app)
     = Inl (JsError ''The operation timed out'')
   \<and> alerts (snd (apiFetch (\<lambda>u p. Rejected ''The operation timed out'')
          (API_BASE @ ''/restaurants'') no_options example_page
          :: (js_error + restaurant list) \<times> app)) = [''The operation timed out'']
   \<and> ''The operation timed out'' \<noteq> cannot_reach_server
   \<and> alerts (snd (apiFetch (\<lambda>u p. Rejected ''NetworkError when attempting to fetch resource.'')
          (API_BASE @ ''/restaurants'') no_options example_page
          :: (js_error + restaurant list) \<times> app)) =
        [''NetworkError when attempting to fetch resource.'']"
  by (simp add: apiFetch_def api_catch_def example_page_def cannot_reach_server_def)

section \<open>The directory refresh\<close>

lemma api_catch_restaurants: "restaurants (snd (api_catch e st)) = restaurants st"
  by (simp add: api_catch_def)

lemma api_catch_restaurantList: "restaurantList (snd (api_catch e st)) = restaurantList st"
  by (simp add: api_catch_def)

lemma apiFetch_restaurants: "restaurants (snd (apiFetch fetch url opts st)) = restaurants st"
  using apiFetch_cases [of fetch url opts st] by (auto simp: api_catch_restaurants)

lemma apiFetch_restaurantList: "restaurantList (snd (apiFetch fetch url opts st)) = restaurantList st"
  using apiFetch_cases [of fetch url opts st] by (auto simp: api_catch_restaurantList)

lemma populateFilters_restaurants: "restaurants (snd (populateFilters st)) = restaurants st"
  by (simp add: populateFilters_def Let_def split: option.split list.split prod.split)

lemma renderRestaurants_restaurants: "restaurants (renderRestaurants loc list st) = restaurants st"
  by (simp add: renderRestaurants_def Let_def split: option.split)

lemma set_list_view_restaurants: "restaurants (set_list_view ns st) = restaurants st"
  by (simp add: set_list_view_def)

lemma set_list_view_restaurantList:
  "restaurantList (set_list_view ns st) = map_option (\<lambda>_. ns) (restaurantList st)"
  by (simp add: set_list_view_def)

lemma refresh_remote_client:
  assumes "apiFetch fetch (API_BASE @ ''/restaurants'') no_options
             (set_list_view [Loading_indicator] st) = (r, st1)"
  shows "(\<forall>e. r = Inl e \<longrightarrow>
            restaurants (fetchRestaurants fetch loc renderMap_fails st) = restaurants st \<and>
            restaurantList (fetchRestaurants fetch loc renderMap_fails st) =
              map_option (\<lambda>_. [Load_failed]) (restaurantList st))
         \<and> (\<forall>d. r = Inr d \<longrightarrow>
            restaurants (fetchRestaurants fetch loc renderMap_fails st) = d)"
proof (intro conjI allI impI)
  fix e
  assume "r = Inl e"
  with assms have run: "fetchRestaurants fetch loc renderMap_fails st = set_list_view [Load_failed] st1"
    by (simp add: fetchRestaurants_def)
  have st1: "st1 = snd (apiFetch fetch (API_BASE @ ''/restaurants'') no_options
             (set_list_view [Loading_indicator] st))"
    using assms by simp
  show "restaurants (fetchRestaurants fetch loc renderMap_fails st) = restaurants st"
    unfolding run st1 by (simp add: set_list_view_restaurants apiFetch_restaurants)
  show "restaurantList (fetchRestaurants fetch loc renderMap_fails st) =
          map_option (\<lambda>_. [Load_failed]) (restaurantList st)"
    unfolding run st1
    by (simp add: set_list_view_restaurantList apiFetch_restaurantList option.map_comp comp_def)
next
  fix d
  assume "r = Inr d"
  with assms have run: "fetchRestaurants fetch loc renderMap_fails st =
      (case populateFilters (st1\<lparr>restaurants := d\<rparr>) of
         (Some err, st2) \<Rightarrow> set_list_view [Load_failed] st2
       | (None, st2) \<Rightarrow>
           (let st3 = renderRestaurants loc (restaurants st2) st2
            in if renderMap_fails then set_list_view [Load_failed] st3 else st3))"
    by (simp add: fetchRestaurants_def)
  have "restaurants (snd (populateFilters (st1\<lparr>restaurants := d\<rparr>))) = d"
    by (simp add: populateFilters_restaurants)
  then show "restaurants (fetchRestaurants fetch loc renderMap_fails st) = d"
    unfolding run
    by (cases "populateFilters (st1\<lparr>restaurants := d\<rparr>)")
       (auto simp: Let_def set_list_view_restaurants renderRestaurants_restaurants
          split: option.split)
qed

lemma refresh_first_no_body:
  assumes "(\<exists>m. first_fetch API_BASE_first = First_rejected m) \<or>
           (\<exists>is_ok s m. first_fetch API_BASE_first = First_resolved (First_response is_ok s (Inl m)))"
  shows "restaurants_first (fetchRestaurants_first first_fetch initMap_fails page) =
           restaurants_first page"
    and "restaurantList_first (fetchRestaurants_first first_fetch initMap_fails page) =
           [Load_failed]"
  using assms by (auto simp add: fetchRestaurants_first_def)

lemma refresh_first_body:
  assumes "first_fetch API_BASE_first = First_resolved (First_response is_ok s (Inr body))"
  shows "restaurants_first (fetchRestaurants_first first_fetch initMap_fails page) = body"
    and "(\<exists>v. body = Other v) \<longrightarrow>
           restaurantList_first (fetchRestaurants_first first_fetch initMap_fails page) =
             [Load_failed]"
  using assms
  by (auto simp add: fetchRestaurants_first_def Let_def renderRestaurants_first_def
      populateFilters_first_def split: directory.split)

text \<open>
  C5, as amended. A refresh leaves the list of restaurants as it was or replaces it by one
  assignment of what was fetched. With the remote data client (\<^verbatim>\<open>part_000\<close>,
  \<^verbatim>\<open>part_001\<close>): when the request fails (the transport fails, the response has \<^verbatim>\<open>ok\<close>
  false, or its body does not parse), the list is unchanged and the list view, when the page
  has one, shows the error placeholder; when the request succeeds, the list is the fetched
  list. In the first revision (\<^verbatim>\<open>src/index.js\<close>): when \<^verbatim>\<open>fetch\<close> rejects or the body
  does not parse, the list is unchanged and the list view shows the error placeholder; when
  the body parses, the list is the parsed body whatever \<^verbatim>\<open>ok\<close> and the status are, and
  when that body is no array the list view shows the error placeholder all the same.
\<close>

theorem refresh_replaces_wholesale:
  "(apiFetch fetch (API_BASE @ ''/restaurants'') no_options
      (set_list_view [Loading_indicator] st) = (r, st1) \<longrightarrow>
      (\<forall>e. r = Inl e \<longrightarrow>
          restaurants (fetchRestaurants fetch loc renderMap_fails st) = restaurants st \<and>
          restaurantList (fetchRestaurants fetch loc renderMap_fails st) =
            map_option (\<lambda>_. [Load_failed]) (restaurantList st))
      \<and> (\<forall>d. r = Inr d \<longrightarrow>
          restaurants (fetchRestaurants fetch loc renderMap_fails st) = d))
   \<and> ((\<exists>m. first_fetch API_BASE_first = First_rejected m) \<or>
       (\<exists>is_ok s m. first_fetch API_BASE_first = First_resolved (First_response is_ok s (Inl m)))
      \<longrightarrow>
        restaurants_first (fetchRestaurants_first first_fetch initMap_fails page) =
          restaurants_first page \<and>
        restaurantList_first (fetchRestaurants_first first_fetch initMap_fails page) =
          [Load_failed])
   \<and> (\<forall>is_ok s body.
        first_fetch API_BASE_first = First_resolved (First_response is_ok s (Inr body)) \<longrightarrow>
          restaurants_first (fetchRestaurants_first first_fetch initMap_fails page) = body \<and>
          ((\<exists>v. body = Other v) \<longrightarrow>
             restaurantList_first (fetchRestaurants_first first_fetch initMap_fails page) =
               [Load_failed]))"
proof (intro conjI)
  show "apiFetch fetch (API_BASE @ ''/restaurants'') no_options
      (set_list_view [Loading_indicator] st) = (r, st1) \<longrightarrow>
      (\<forall>e. r = Inl e \<longrightarrow>
          restaurants (fetchRestaurants fetch loc renderMap_fails st) = restaurants st \<and>
          restaurantList (fetchRestaurants fetch loc renderMap_fails st) =
            map_option (\<lambda>_. [Load_failed]) (restaurantList st))
      \<and> (\<forall>d. r = Inr d \<longrightarrow>
          restaurants (fetchRestaurants fetch loc renderMap_fails st) = d)"
    by (rule impI) (rule refresh_remote_client)
  show "(\<exists>m. first_fetch API_BASE_first = First_rejected m) \<or>
       (\<exists>is_ok s m. first_fetch API_BASE_first = First_resolved (First_response is_ok s (Inl m)))
      \<longrightarrow>
        restaurants_first (fetchRestaurants_first first_fetch initMap_fails page) =
          restaurants_first page \<and>
        restaurantList_first (fetchRestaurants_first first_fetch initMap_fails page) =
          [Load_failed]"
    using refresh_first_no_body [of first_fetch initMap_fails page] by blast
  show "\<forall>is_ok s body.
        first_fetch API_BASE_first = First_resolved (First_response is_ok s (Inr body)) \<longrightarrow>
          restaurants_first (fetchRestaurants_first first_fetch initMap_fails page) = body \<and>
          ((\<exists>v. body = Other v) \<longrightarrow>
             restaurantList_first (fetchRestaurants_first first_fetch initMap_fails page) =
               [Load_failed])"
    using refresh_first_body [of first_fetch _ _ _ initMap_fails page] by blast
qed

theorem refresh_replaces_wholesale_witness:
  "restaurants (fetchRestaurants (\<lambda>u p. Rejected ''Failed to fetch'') None False
      (example_page\<lparr>restaurants := example_list\<rparr>)) = example_list
   \<and> restaurantList (fetchRestaurants (\<lambda>u p. Rejected ''Failed to fetch'') None False
      (example_page\<lparr>restaurants := example_list\<rparr>)) = Some [Load_failed]
   \<and> restaurants (fetchRestaurants (\<lambda>u p. Resolved (Ok_response 200 (Inr example_list))) None False
      example_page) = example_list
   \<and> restaurants_first (fetchRestaurants_first (\<lambda>u. First_rejected ''Failed to fetch'') False
      example_first_page) = Listing example_list
   \<and> restaurantList_first (fetchRestaurants_first (\<lambda>u. First_rejected ''Failed to fetch'') False
      example_first_page) = [Load_failed]
   \<and> restaurants_first (fetchRestaurants_first
        (\<lambda>u. First_resolved (First_response True 200 (Inr (Listing [restaurant_near])))) False
      example_first_page) = Listing [restaurant_near]"
proof -
  let ?st = "example_page\<lparr>restaurants := example_list\<rparr>"
  let ?rej = "\<lambda>u p. Rejected ''Failed to fetch'' :: restaurant list fetch_result"
  let ?res = "\<lambda>u p. Resolved (Ok_response 200 (Inr example_list)) :: restaurant list fetch_result"
  let ?rej1 = "\<lambda>u. First_rejected ''Failed to fetch''"
  let ?res1 = "\<lambda>u. First_resolved (First_response True 200 (Inr (Listing [restaurant_near])))"
  have a: "apiFetch ?rej (API_BASE @ ''/restaurants'') no_options (set_list_view [Loading_indicator] ?st)
        = (Inl (JsError ''Failed to fetch''),
           snd (apiFetch ?rej (API_BASE @ ''/restaurants'') no_options (set_list_view [Loading_indicator] ?st)))"
    by (simp add: apiFetch_def api_catch_def)
  have b: "apiFetch ?res (API_BASE @ ''/restaurants'') no_options (set_list_view [Loading_indicator] example_page)
        = (Inr example_list,
           snd (apiFetch ?res (API_BASE @ ''/restaurants'') no_options (set_list_view [Loading_indicator] example_page)))"
    by (simp add: apiFetch_def api_catch_def)
  have c: "\<exists>m. ?rej1 API_BASE_first = First_rejected m"
    by simp
  have d: "?res1 API_BASE_first = First_resolved (First_response True 200 (Inr (Listing [restaurant_near])))"
    by simp
  note rejected = refresh_replaces_wholesale
    [of ?rej ?st "Inl (JsError ''Failed to fetch'')"
      "snd (apiFetch ?rej (API_BASE @ ''/restaurants'') no_options (set_list_view [Loading_indicator] ?st))"
      None False ?rej1 False example_first_page]
  note resolved = refresh_replaces_wholesale
    [of ?res example_page "Inr example_list"
      "snd (apiFetch ?res (API_BASE @ ''/restaurants'') no_options (set_list_view [Loading_indicator] example_page))"
      None False ?res1 False example_first_page]
  note kept = rejected [THEN conjunct1, THEN mp, OF a, THEN conjunct1, THEN spec, THEN mp, OF refl]
  note one = kept [THEN conjunct1]
  note two = kept [THEN conjunct2]
  note kept_first = rejected [THEN conjunct2, THEN conjunct1, THEN mp, OF disjI1, OF c]
  note four = kept_first [THEN conjunct1]
  note five = kept_first [THEN conjunct2]
  note three = resolved [THEN conjunct1, THEN mp, OF b, THEN conjunct2, THEN spec, THEN mp, OF refl]
  note six = resolved [THEN conjunct2, THEN conjunct2, THEN spec, THEN spec, THEN spec, THEN mp,
      OF d, THEN conjunct1]
  show ?thesis
  proof (intro conjI)
    show "restaurants (fetchRestaurants ?rej None False ?st) = example_list"
      using one by simp
    show "restaurantList (fetchRestaurants ?rej None False ?st) = Some [Load_failed]"
      using two by (simp add: example_page_def)
    show "restaurants (fetchRestaurants ?res None False example_page) = example_list"
      by (rule three)
    show "restaurants_first (fetchRestaurants_first ?rej1 False example_first_page) =
        Listing example_list"
      using four by (simp add: example_first_page_def)
    show "restaurantList_first (fetchRestaurants_first ?rej1 False example_first_page) =
        [Load_failed]"
      by (rule five)
    show "restaurants_first (fetchRestaurants_first ?res1 False example_first_page) =
        Listing [restaurant_near]"
      by (rule six)
  qed
qed

text \<open>
  The claim as stated fails in the first revision: a response with status 404 and the body
  \<^verbatim>\<open>{"message": "Not found"}\<close> is a failed fetch, and the refresh puts that body in the
  place of the three restaurants before it shows the error placeholder.
\<close>

theorem first_refresh_replaces_on_404:
  "restaurants_first example_first_page = Listing example_list
   \<and> restaurants_first (fetchRestaurants_first
        (\<lambda>u. First_resolved (First_response False 404 (Inr not_found_first))) False
        example_first_page) = not_found_first
   \<and> not_found_first \<noteq> Listing example_list
   \<and> restaurantList_first (fetchRestaurants_first
        (\<lambda>u. First_resolved (First_response False 404 (Inr not_found_first))) False
        example_first_page) = [Load_failed]"
  by (simp add: fetchRestaurants_first_def example_first_page_def not_found_first_def)

section \<open>Restoring the session\<close>

text \<open>
  C9. At startup (no current user yet), when the local storage holds a token and a user
  payload that \<^verbatim>\<open>JSON.parse\<close> rejects, \<^verbatim>\<open>loadAuth\<close> only sets the token variable
  and logs the error: it returns normally, raises no notification, leaves the current user
  unset, so that the program does not count as logged in, and leaves the four buttons of the
  navigation as they were.
\<close>

theorem corrupt_user_not_restored:
  assumes "localStorage st ''token'' = Some tk" and "tk \<noteq> []"
    and "localStorage st ''currentUser'' = Some s" and "s \<noteq> []"
    and "JSON_parse s = Inl e"
    and "currentUser st = None"
  shows "loadAuth JSON_parse st =
           st\<lparr>token := Some tk, console := console st @ [(''Invalid stored user data'', e)]\<rparr>
         \<and> currentUser (loadAuth JSON_parse st) = None
         \<and> \<not> loggedIn (loadAuth JSON_parse st)
         \<and> alerts (loadAuth JSON_parse st) = alerts st
         \<and> loginBtn (loadAuth JSON_parse st) = loginBtn st
         \<and> registerBtn (loadAuth JSON_parse st) = registerBtn st
         \<and> profileBtn (loadAuth JSON_parse st) = profileBtn st
         \<and> logoutBtn (loadAuth JSON_parse st) = logoutBtn st"
  using assms by (simp add: loadAuth_def Let_def truthy_def or_empty_def loggedIn_def)

theorem corrupt_user_not_restored_witness:
  "loadAuth example_parse page_with_corrupt_user =
     page_with_corrupt_user
       \<lparr>token := Some ''t1'',
        console := [(''Invalid stored user data'', ''Unexpected token in JSON'')]\<rparr>
   \<and> currentUser (loadAuth example_parse page_with_corrupt_user) = None
   \<and> \<not> loggedIn (loadAuth example_parse page_with_corrupt_user)"
proof -
  have tk: "localStorage page_with_corrupt_user ''token'' = Some ''t1''" and "''t1'' \<noteq> []"
    and stored: "localStorage page_with_corrupt_user ''currentUser'' = Some ''{username''"
    and "''{username'' \<noteq> []"
    by (simp_all add: page_with_corrupt_user_def)
  moreover have parse: "example_parse ''{username'' = Inl ''Unexpected token in JSON''"
    by (simp add: example_parse_def)
  moreover have start: "currentUser page_with_corrupt_user = None"
    by (simp add: page_with_corrupt_user_def example_page_def)
  ultimately have run:
    "loadAuth example_parse page_with_corrupt_user =
       page_with_corrupt_user
         \<lparr>token := Some ''t1'',
          console := console page_with_corrupt_user @
            [(''Invalid stored user data'', ''Unexpected token in JSON'')]\<rparr>
     \<and> currentUser (loadAuth example_parse page_with_corrupt_user) = None
     \<and> \<not> loggedIn (loadAuth example_parse page_with_corrupt_user)"
    using corrupt_user_not_restored [of page_with_corrupt_user "''t1''" "''{username''"
        example_parse "''Unexpected token in JSON''"]
    by blast
  have log: "console page_with_corrupt_user = []"
    by (simp add: page_with_corrupt_user_def example_page_def)
  show ?thesis
  proof (intro conjI)
    show "loadAuth example_parse page_with_corrupt_user =
            page_with_corrupt_user
              \<lparr>token := Some ''t1'',
               console := [(''Invalid stored user data'', ''Unexpected token in JSON'')]\<rparr>"
      using run log by simp
    show "currentUser (loadAuth example_parse page_with_corrupt_user) = None"
      using run by blast
    show "\<not> loggedIn (loadAuth example_parse page_with_corrupt_user)"
      using run by blast
  qed
qed

section \<open>The weekly menu with a single day\<close>

lemma chunk_loop_sections:
  "chunk_loop l all c i html =
     html @ concat (map (\<lambda>j. [H4 (Plain (weekdays l ! j)),
                               course_list (slice all (j * c) ((j + 1) * c))]) [i..<5])"
proof (induction l all c i html rule: chunk_loop.induct)
  case (1 l all c i html)
  show ?case
  proof (cases "i < 5")
    case True
    then show ?thesis
      using "1.IH" [OF True] by (subst chunk_loop.simps) (simp add: upt_conv_Cons)
  next
    case False
    then show ?thesis
      by (subst chunk_loop.simps) simp
  qed
qed

lemma buckets_section:
  "buckets (H4 h # course_list cs # html) = (h, cs) # buckets html"
  by (cases cs) (simp_all add: course_list_def)

lemma buckets_sections:
  "buckets (concat (map (\<lambda>j. [H4 (f j), course_list (g j)]) js)) = map (\<lambda>j. (f j, g j)) js"
  by (induction js) (simp_all add: buckets_section)

lemma listed_courses_sections:
  "listed_courses (concat (map (\<lambda>j. [H4 (f j), course_list (g j)]) js)) = concat (map g js)"
  by (induction js) (simp_all add: listed_courses_def course_list_def)

lemma concat_slices:
  "concat (map (\<lambda>j. slice xs (j * c) ((j + 1) * c)) [0..<k]) = take (k * c) xs"
proof (induction k)
  case 0
  show ?case by simp
next
  case (Suc k)
  have "take (k * c) xs @ slice xs (k * c) ((k + 1) * c) = take (k * c + c) xs"
    by (simp add: slice_def take_add)
  with Suc show ?case by (simp add: add.commute)
qed

lemma chunks_cover: "length xs \<le> 5 * nat \<lceil>real (length xs) / 5\<rceil>"
proof -
  let ?c = "\<lceil>real (length xs) / 5\<rceil>"
  have "real (length xs) / 5 \<le> of_int ?c"
    by (rule le_of_int_ceiling)
  then have "real (length xs) \<le> 5 * of_int ?c"
    by linarith
  moreover have "0 \<le> ?c"
    by simp
  then have "real (nat ?c) = of_int ?c"
    by simp
  ultimately have "real (length xs) \<le> real (5 * nat ?c)"
    by simp
  then show ?thesis
    by (simp only: of_nat_le_iff)
qed

lemma nth_sections:
  "i < length js \<Longrightarrow> concat (map (\<lambda>j. [f j, g j]) js) ! (2 * i + 1) = g (js ! i)"
proof (induction js arbitrary: i)
  case Nil
  then show ?case by simp
next
  case (Cons j js)
  then show ?case by (cases i) simp_all
qed

lemma weekly_html_single_day:
  "days w = [d] \<Longrightarrow> courses d = Some all \<Longrightarrow>
   weekly_html l w =
     concat (map (\<lambda>j. [H4 (Plain (weekdays l ! j)),
                       course_list (slice all (j * nat \<lceil>real (length all) / 5\<rceil>)
                                      ((j + 1) * nat \<lceil>real (length all) / 5\<rceil>))]) [0..<5])"
  by (simp add: weekly_html_def chunk_loop_sections)

lemma showWeeklyMenu_displays:
  assumes "find (\<lambda>x. r_id x = rid) (restaurants st) = Some r"
    and "menuDisplay st = Some m"
    and "fetch (weekly_url rid st) (no_options\<lparr>opt_headers := request_headers no_options st\<rparr>) =
           Resolved (Ok_response s (Inr w))"
  shows "menuDisplay (showWeeklyMenu fetch rid st) =
           Some \<lparr>menuTitle = Title (name r) (Some Weekly),
                 menuContent = (if weekly_html (selectedLang st) w \<noteq> []
                                then weekly_html (selectedLang st) w else [No_menu]),
                 shown = True\<rparr>"
  using assms by (simp add: showWeeklyMenu_def apiFetch_def displayMenu_def Let_def)

lemma chunk_ten: "nat \<lceil>real (length ten_courses) / 5\<rceil> = 2"
  by (simp add: ten_courses_def)

text \<open>
  C6. When the restaurant is known, the page has the menu overlay, and the response to the
  request for the weekly menu is a week of exactly one day that has courses, the overlay
  shows five weekday sections, headed by the first five weekday names, whose lists of
  courses are the consecutive slices of the courses of length \<open>chunk\<close>, the number of
  courses divided by five and rounded up; with ten courses each of the five has two.
\<close>

theorem single_day_five_buckets:
  assumes "find (\<lambda>x. r_id x = rid) (restaurants st) = Some r"
    and "menuDisplay st = Some m"
    and "fetch (weekly_url rid st) (no_options\<lparr>opt_headers := request_headers no_options st\<rparr>) =
           Resolved (Ok_response s (Inr w))"
    and "days w = [d]" and "courses d = Some all"
    and "chunk = nat \<lceil>real (length all) / 5\<rceil>"
  shows "\<exists>m'. menuDisplay (showWeeklyMenu fetch rid st) = Some m' \<and> shown m' \<and>
           buckets (menuContent m') =
             map (\<lambda>i. (Plain (weekdays (selectedLang st) ! i),
                        slice all (i * chunk) ((i + 1) * chunk))) [0..<5] \<and>
           length (buckets (menuContent m')) = 5 \<and>
           (length all = 10 \<longrightarrow>
              map (\<lambda>b. length (snd b)) (buckets (menuContent m')) = [2, 2, 2, 2, 2])"
proof -
  let ?html = "weekly_html (selectedLang st) w"
  let ?sec = "\<lambda>i. (Plain (weekdays (selectedLang st) ! i), slice all (i * chunk) ((i + 1) * chunk))"
  have html: "?html = concat (map (\<lambda>j. [H4 (Plain (weekdays (selectedLang st) ! j)),
                       course_list (slice all (j * chunk) ((j + 1) * chunk))]) [0..<5])"
    using assms(4,5,6) by (simp add: weekly_html_single_day)
  have b: "buckets ?html = map ?sec [0..<5]"
    unfolding html by (rule buckets_sections)
  have "?html \<noteq> []"
    unfolding html by (simp add: upt_conv_Cons)
  then have shown: "menuDisplay (showWeeklyMenu fetch rid st) =
      Some \<lparr>menuTitle = Title (name r) (Some Weekly), menuContent = ?html, shown = True\<rparr>"
    using showWeeklyMenu_displays [of rid st r m fetch s w] assms(1,2,3) by simp
  have ten: "map (\<lambda>b. length (snd b)) (buckets ?html) = [2, 2, 2, 2, 2]" if "length all = 10"
  proof -
    from that assms(6) have "chunk = 2" by simp
    with that show ?thesis
      unfolding b by (simp add: upt_conv_Cons slice_def comp_def)
  qed
  show ?thesis
    using shown b ten by simp
qed

theorem single_day_five_buckets_witness:
  "\<exists>m'. menuDisplay (showWeeklyMenu (\<lambda>u p. Resolved (Ok_response 200 (Inr single_day_week)))
            ''r1'' (example_page\<lparr>restaurants := example_list\<rparr>)) = Some m' \<and>
         map snd (buckets (menuContent m')) =
           [[dish ''c0'', dish ''c1''], [dish ''c2'', dish ''c3''], [dish ''c4'', dish ''c5''],
            [dish ''c6'', dish ''c7''], [dish ''c8'', dish ''c9'']]"
proof -
  let ?st = "example_page\<lparr>restaurants := example_list\<rparr>"
  let ?fetch = "\<lambda>u p. Resolved (Ok_response 200 (Inr single_day_week)) :: week fetch_result"
  have found: "find (\<lambda>x. r_id x = ''r1'') (restaurants ?st) = Some restaurant_far"
    by (simp add: example_list_def restaurant_far_def)
  have overlay: "menuDisplay ?st = Some \<lparr>menuTitle = Untitled, menuContent = [], shown = False\<rparr>"
    by (simp add: example_page_def)
  have response: "?fetch (weekly_url ''r1'' ?st)
      (no_options\<lparr>opt_headers := request_headers no_options ?st\<rparr>) =
      Resolved (Ok_response 200 (Inr single_day_week))"
    by simp
  have shape: "days single_day_week = [\<lparr>date = None, courses = Some ten_courses\<rparr>]"
    and c: "courses \<lparr>date = None, courses = Some ten_courses\<rparr> = Some ten_courses"
    by (simp_all add: single_day_week_def)
  from single_day_five_buckets [of "''r1''" ?st restaurant_far _ ?fetch 200 single_day_week,
      OF found overlay response shape c refl]
  obtain m' where m': "menuDisplay (showWeeklyMenu ?fetch ''r1'' ?st) = Some m'"
    and b: "buckets (menuContent m') =
             map (\<lambda>i. (Plain (weekdays (selectedLang ?st) ! i),
                        slice ten_courses (i * nat \<lceil>real (length ten_courses) / 5\<rceil>)
                          ((i + 1) * nat \<lceil>real (length ten_courses) / 5\<rceil>))) [0..<5]"
    by blast
  have "map snd (buckets (menuContent m')) =
           [[dish ''c0'', dish ''c1''], [dish ''c2'', dish ''c3''], [dish ''c4'', dish ''c5''],
            [dish ''c6'', dish ''c7''], [dish ''c8'', dish ''c9'']]"
    unfolding b chunk_ten by (simp add: upt_conv_Cons slice_def ten_courses_def)
  with m' show ?thesis by (intro exI [of _ m'] conjI)
qed

text \<open>
  C10. For a week of exactly one day that has courses, the lists of courses of the five
  sections, one after the other, are the courses of the day: every course is listed once,
  in the order of the response. The \<open>i\<close>-th section holds the slice from \<open>i * chunk\<close>
  to \<open>(i + 1) * chunk\<close>, and a section whose slice is empty shows the no-meals paragraph.
\<close>

theorem chunks_concat_to_all:
  assumes "days w = [d]" and "courses d = Some all"
    and "chunk = nat \<lceil>real (length all) / 5\<rceil>"
  shows "concat (map snd (buckets (weekly_html l w))) = all \<and>
         listed_courses (weekly_html l w) = all \<and>
         map snd (buckets (weekly_html l w)) =
           map (\<lambda>i. slice all (i * chunk) ((i + 1) * chunk)) [0..<5] \<and>
         (\<forall>i<5. slice all (i * chunk) ((i + 1) * chunk) = [] \<longrightarrow>
                 weekly_html l w ! (2 * i + 1) = No_menu)"
proof -
  let ?sl = "\<lambda>i. slice all (i * chunk) ((i + 1) * chunk)"
  have html: "weekly_html l w = concat (map (\<lambda>j. [H4 (Plain (weekdays l ! j)),
                       course_list (?sl j)]) [0..<5])"
    using assms by (simp add: weekly_html_single_day)
  have "length all \<le> 5 * chunk"
    unfolding assms(3) by (rule chunks_cover)
  moreover have "concat (map ?sl [0..<5]) = take (5 * chunk) all"
    by (rule concat_slices)
  ultimately have cover: "concat (map ?sl [0..<5]) = all"
    by simp
  have b: "map snd (buckets (weekly_html l w)) = map ?sl [0..<5]"
    unfolding html by (simp add: buckets_sections comp_def)
  have listed: "listed_courses (weekly_html l w) = all"
    unfolding html by (simp only: listed_courses_sections cover)
  have empty: "weekly_html l w ! (2 * i + 1) = No_menu" if "i < 5" and "?sl i = []" for i
    using that unfolding html
    by (simp only: nth_sections [of i "[0..<5]"] length_upt nth_upt course_list_def) simp
  show ?thesis
    using b cover listed empty by simp
qed

theorem chunks_concat_to_all_witness:
  "listed_courses (weekly_html Fi single_day_week) = ten_courses \<and>
   concat (map snd (buckets (weekly_html Fi single_day_week))) = ten_courses \<and>
   weekly_html Fi \<lparr>days = [\<lparr>date = None, courses = Some (take 6 ten_courses)\<rparr>]\<rparr> ! 7 = No_menu"
proof -
  have shape: "days single_day_week = [\<lparr>date = None, courses = Some ten_courses\<rparr>]"
    and c: "courses \<lparr>date = None, courses = Some ten_courses\<rparr> = Some ten_courses"
    by (simp_all add: single_day_week_def)
  from chunks_concat_to_all [OF shape c refl, of Fi]
  have listed: "listed_courses (weekly_html Fi single_day_week) = ten_courses"
    and joined: "concat (map snd (buckets (weekly_html Fi single_day_week))) = ten_courses"
    by blast+
  have shape6: "days \<lparr>days = [\<lparr>date = None, courses = Some (take 6 ten_courses)\<rparr>]\<rparr> =
      [\<lparr>date = None, courses = Some (take 6 ten_courses)\<rparr>]"
    and c6: "courses \<lparr>date = None, courses = Some (take 6 ten_courses)\<rparr> = Some (take 6 ten_courses)"
    by simp_all
  note six = chunks_concat_to_all [OF shape6 c6 refl, of Fi]
  have "slice (take 6 ten_courses) (3 * nat \<lceil>real (length (take 6 ten_courses)) / 5\<rceil>)
          ((3 + 1) * nat \<lceil>real (length (take 6 ten_courses)) / 5\<rceil>) = []"
    by (simp add: ten_courses_def slice_def)
  moreover have "(3::nat) < 5"
    by simp
  ultimately have "weekly_html Fi \<lparr>days = [\<lparr>date = None, courses = Some (take 6 ten_courses)\<rparr>]\<rparr>
      ! (2 * 3 + 1) = No_menu"
    using six by blast
  then have "weekly_html Fi \<lparr>days = [\<lparr>date = None, courses = Some (take 6 ten_courses)\<rparr>]\<rparr> ! 7
      = No_menu"
    by simp
  with listed joined show ?thesis
    by (intro conjI)
qed

end
